theory Spec2Isabelle
  imports Main "HOL-Library.Multiset"
begin

section \<open>Cards\<close>

text \<open>
  The repository holds several revisions of the same game server.  Two of them are
  embedded here: \<^verbatim>\<open>src/server.js\<close> (the "optimized" server, names as in the source) and
  \<^verbatim>\<open>src/unnamed/part_003\<close> (the revision with lay-off support, names suffixed \<open>_p3\<close>).
  \<^verbatim>\<open>src/unnamed/part_001\<close> agrees with part_003 on every function embedded with the
  suffix \<open>_p3\<close> except where a definition says otherwise.
\<close>

datatype suit = hearts | diamonds | clubs | spades

datatype rank = A | R2 | R3 | R4 | R5 | R6 | R7 | R8 | R9 | R10 | J | Q | K

datatype card = Card (suit: suit) (rank: rank)

text \<open>\<^verbatim>\<open>SUITS\<close> and \<^verbatim>\<open>RANKS\<close> (server.js 54-55), in the source's enumeration order.\<close>

definition SUITS :: "suit list" where
  "SUITS = [hearts, diamonds, clubs, spades]"

definition RANKS :: "rank list" where
  "RANKS = [A, R2, R3, R4, R5, R6, R7, R8, R9, R10, J, Q, K]"

text \<open>\<^verbatim>\<open>RANK_VALUES\<close> (server.js 60-63); part_003 computes the same in \<^verbatim>\<open>getCardValue\<close>.\<close>

fun RANK_VALUES :: "rank \<Rightarrow> int" where
  "RANK_VALUES A = 1"
| "RANK_VALUES R2 = 2"
| "RANK_VALUES R3 = 3"
| "RANK_VALUES R4 = 4"
| "RANK_VALUES R5 = 5"
| "RANK_VALUES R6 = 6"
| "RANK_VALUES R7 = 7"
| "RANK_VALUES R8 = 8"
| "RANK_VALUES R9 = 9"
| "RANK_VALUES R10 = 10"
| "RANK_VALUES J = 10"
| "RANK_VALUES Q = 10"
| "RANK_VALUES K = 10"

text \<open>\<^verbatim>\<open>RANK_SCORES\<close> (server.js 65-68); part_003 computes the same in \<^verbatim>\<open>getScoreValue\<close>.\<close>

fun RANK_SCORES :: "rank \<Rightarrow> int" where
  "RANK_SCORES A = 20"
| "RANK_SCORES R2 = 2"
| "RANK_SCORES R3 = 3"
| "RANK_SCORES R4 = 4"
| "RANK_SCORES R5 = 5"
| "RANK_SCORES R6 = 6"
| "RANK_SCORES R7 = 7"
| "RANK_SCORES R8 = 8"
| "RANK_SCORES R9 = 9"
| "RANK_SCORES R10 = 10"
| "RANK_SCORES J = 10"
| "RANK_SCORES Q = 10"
| "RANK_SCORES K = 10"

text \<open>The fields \<^verbatim>\<open>value\<close> and \<^verbatim>\<open>scoreValue\<close> that the constructor precomputes.\<close>

definition card_value :: "card \<Rightarrow> int" where
  "card_value c = RANK_VALUES (rank c)"

definition scoreValue :: "card \<Rightarrow> int" where
  "scoreValue c = RANK_SCORES (rank c)"

text \<open>
  An array element is a card or JavaScript's \<^verbatim>\<open>undefined\<close>: \<^verbatim>\<open>pop()\<close> on an empty
  array and an index out of range both give \<^verbatim>\<open>undefined\<close>, and the source stores what
  they give without looking at it.  Reading a field of \<^verbatim>\<open>undefined\<close> throws.
\<close>

type_synonym slot = "card option"

datatype js_error = TypeError | ReferenceError

section \<open>Meld validation\<close>

text \<open>\<^verbatim>\<open>Array.prototype.every\<close> with a callback that reads a field of the element:
  it stops at the first element that fails, and throws at an \<^verbatim>\<open>undefined\<close> one.\<close>

fun every_js :: "(card \<Rightarrow> bool) \<Rightarrow> slot list \<Rightarrow> js_error + bool" where
  "every_js p [] = Inr True"
| "every_js p (None # cs) = Inl TypeError"
| "every_js p (Some c # cs) = (if p c then every_js p cs else Inr False)"

text \<open>\<^verbatim>\<open>cards.sort((a, b) => a.value - b.value)\<close>: the sort is stable, and
  \<^verbatim>\<open>undefined\<close> elements go to the end without the comparator being called.\<close>

definition sort_by_value :: "slot list \<Rightarrow> slot list" where
  "sort_by_value cs =
     map Some (sort_key card_value (List.map_filter (\<lambda>s. s) cs)) @ filter (\<lambda>s. s = None) cs"

text \<open>The loop \<^verbatim>\<open>for (i = 1; i < sorted.length; i++) if (sorted[i].value !== sorted[i-1].value + 1) return false\<close>.\<close>

fun consecutive :: "slot list \<Rightarrow> js_error + bool" where
  "consecutive (Some a # Some b # rest) =
     (if card_value b \<noteq> card_value a + 1 then Inr False else consecutive (Some b # rest))"
| "consecutive (a # None # rest) = Inl TypeError"
| "consecutive (None # Some b # rest) = Inl TypeError"
| "consecutive [a] = Inr True"
| "consecutive [] = Inr True"

text \<open>\<^verbatim>\<open>Game.validateMeld\<close>, server.js 500-517.\<close>

definition validateMeld :: "slot list \<Rightarrow> string \<Rightarrow> js_error + bool" where
  "validateMeld cards type =
     (if type = ''set'' then
        (if length cards < 3 then Inr False
         else case cards ! 0 of
                None \<Rightarrow> Inl TypeError
              | Some c0 \<Rightarrow> every_js (\<lambda>c. rank c = rank c0) cards)
      else if type = ''run'' then
        (if length cards < 4 then Inr False
         else case cards ! 0 of
                None \<Rightarrow> Inl TypeError
              | Some c0 \<Rightarrow>
                  (case every_js (\<lambda>c. suit c = suit c0) cards of
                     Inl e \<Rightarrow> Inl e
                   | Inr False \<Rightarrow> Inr False
                   | Inr True \<Rightarrow> consecutive (sort_by_value cards)))
      else Inr False)"

text \<open>\<^verbatim>\<open>Game.validateMeld\<close>, part_003 585-600.  It sorts \<^verbatim>\<open>cards\<close> in place, so the
  array the caller holds is returned with the answer.  The callback of \<^verbatim>\<open>every\<close> reads
  \<^verbatim>\<open>card.rank\<close> before \<^verbatim>\<open>cards[0].rank\<close>; on an array of length 3 or more the first
  element it meets is \<^verbatim>\<open>cards[0]\<close>, so both throw together.\<close>

definition validateMeld_p3 :: "slot list \<Rightarrow> string \<Rightarrow> (js_error + bool) \<times> slot list" where
  "validateMeld_p3 cards meldType =
     (if meldType = ''set'' \<and> length cards < 3 then (Inr False, cards)
      else if meldType = ''run'' \<and> length cards < 4 then (Inr False, cards)
      else if meldType = ''set'' then
        (every_js (\<lambda>c. Some (rank c) = map_option rank (cards ! 0)) cards, cards)
      else if meldType = ''run'' then
        (case every_js (\<lambda>c. Some (suit c) = map_option suit (cards ! 0)) cards of
           Inl e \<Rightarrow> (Inl e, cards)
         | Inr False \<Rightarrow> (Inr False, cards)
         | Inr True \<Rightarrow> (consecutive (sort_by_value cards), sort_by_value cards))
      else (Inr False, cards))"

section \<open>Round requirements\<close>

record requirement =
  round :: nat
  melds_text :: string
  sets :: nat
  runs :: nat
  minSetSize :: nat
  minRunSize :: nat

text \<open>\<^verbatim>\<open>ROUND_REQUIREMENTS\<close> (server.js 70-78, part_003 31-39); \<open>melds_text\<close> is the
  field \<^verbatim>\<open>melds\<close>, the description that the failure messages quote.\<close>

definition ROUND_REQUIREMENTS :: "requirement list" where
  "ROUND_REQUIREMENTS =
    [\<lparr>round = 1, melds_text = ''2 Sets of 3'', sets = 2, runs = 0, minSetSize = 3, minRunSize = 0\<rparr>,
     \<lparr>round = 2, melds_text = ''1 Set of 3 + 1 Run of 4'', sets = 1, runs = 1, minSetSize = 3, minRunSize = 4\<rparr>,
     \<lparr>round = 3, melds_text = ''2 Runs of 4'', sets = 0, runs = 2, minSetSize = 0, minRunSize = 4\<rparr>,
     \<lparr>round = 4, melds_text = ''3 Sets of 3'', sets = 3, runs = 0, minSetSize = 3, minRunSize = 0\<rparr>,
     \<lparr>round = 5, melds_text = ''2 Sets of 3 + 1 Run of 4'', sets = 2, runs = 1, minSetSize = 3, minRunSize = 4\<rparr>,
     \<lparr>round = 6, melds_text = ''1 Set of 3 + 2 Runs of 4'', sets = 1, runs = 2, minSetSize = 3, minRunSize = 4\<rparr>,
     \<lparr>round = 7, melds_text = ''3 Runs of 4'', sets = 0, runs = 3, minSetSize = 0, minRunSize = 4\<rparr>]"

text \<open>\<^verbatim>\<open>ROUND_REQUIREMENTS[currentRound - 1]\<close>; \<open>None\<close> is \<^verbatim>\<open>undefined\<close>.\<close>

definition requirement_of :: "nat \<Rightarrow> requirement option" where
  "requirement_of currentRound =
     (if currentRound = 0 \<or> length ROUND_REQUIREMENTS < currentRound then None
      else Some (ROUND_REQUIREMENTS ! (currentRound - 1)))"

section \<open>Deck\<close>

text \<open>\<^verbatim>\<open>Deck.initialize\<close> (server.js 104-117): two decks, suit by suit, rank by rank.\<close>

definition initialize :: "slot list" where
  "initialize =
     concat (map (\<lambda>deck. concat (map (\<lambda>s. map (\<lambda>r. Some (Card s r)) RANKS) SUITS)) [0 ..< 2 :: nat])"

text \<open>\<^verbatim>\<open>Deck.shuffle\<close> (server.js 119-125), Fisher-Yates.  \<open>rnd i\<close> stands for what
  \<^verbatim>\<open>Math.random()\<close> returns in the iteration with index \<open>i\<close>; 
  \<^verbatim>\<open>Math.floor(Math.random() * (i + 1))\<close> lies in \<open>0..i\<close>, which \<open>mod\<close> enforces.\<close>

primrec shuffle_from :: "(nat \<Rightarrow> nat) \<Rightarrow> nat \<Rightarrow> 'a list \<Rightarrow> 'a list" where
  "shuffle_from rnd 0 cs = cs"
| "shuffle_from rnd (Suc i) cs =
     (let j = rnd (Suc i) mod (Suc i + 1)
      in shuffle_from rnd i (cs[Suc i := cs ! j, j := cs ! Suc i]))"

definition shuffle :: "(nat \<Rightarrow> nat) \<Rightarrow> 'a list \<Rightarrow> 'a list" where
  "shuffle rnd cs = shuffle_from rnd (length cs - 1) cs"

text \<open>\<^verbatim>\<open>Deck.deal\<close> is \<^verbatim>\<open>cards.pop()\<close>: the last element, \<^verbatim>\<open>undefined\<close> on an empty array.\<close>

definition deal :: "slot list \<Rightarrow> slot \<times> slot list" where
  "deal cs = (if cs = [] then (None, []) else (last cs, butlast cs))"

text \<open>The loop \<^verbatim>\<open>for (i = 0; i < cardsPerPlayer; i++) data.hand.push(this.deck.deal())\<close>.\<close>

primrec deal_n :: "nat \<Rightarrow> slot list \<Rightarrow> slot list \<Rightarrow> slot list \<times> slot list" where
  "deal_n 0 hand cs = (hand, cs)"
| "deal_n (Suc n) hand cs = (case deal cs of (c, cs') \<Rightarrow> deal_n n (hand @ [c]) cs')"

section \<open>Game state of server.js\<close>

record meld =
  type :: string
  cards :: "slot list"

text \<open>An entry of \<^verbatim>\<open>playerData\<close> (server.js 290-299); \<^verbatim>\<open>wantList\<close> is never read.\<close>

record playerData =
  hand :: "slot list"
  melds :: "meld list"
  buys :: int
  scores :: "int list"
  goneDown :: bool

datatype difficulty = easy | medium | hard

text \<open>\<^verbatim>\<open>buyPhase\<close>: \<open>requests\<close> is a \<^verbatim>\<open>Map\<close>, iterated in insertion order.\<close>

record buyPhase =
  active :: bool
  bp_card :: slot
  requests :: "(string \<times> bool) list"

record game =
  players :: "string list"
  aiPlayers :: "string \<rightharpoonup> difficulty"
  playerData :: "string \<rightharpoonup> playerData"
  currentRound :: nat
  currentPlayerIndex :: nat
  deck :: "slot list"
  discardPile :: "slot list"
  hasDrawn :: bool
  buyPhase :: buyPhase

record final_results =
  winner :: string
  winnerScore :: int
  finalStandings :: "(string \<times> int) list"

datatype round_result = GameEnded final_results | NewRound nat

text \<open>What a call gives back: the object \<^verbatim>\<open>{success: false, message}\<close>, the object
  \<^verbatim>\<open>{success: true, card?, roundResult?}\<close>, or an exception that the socket handler
  catches.  The state that comes with it is the state the call leaves behind.\<close>

datatype reply = Failure string | Success "slot option" "round_result option" | Thrown js_error

text \<open>\<^verbatim>\<open>Map.prototype.set\<close>: a present key keeps its place.\<close>

fun map_set :: "('k \<times> 'v) list \<Rightarrow> 'k \<Rightarrow> 'v \<Rightarrow> ('k \<times> 'v) list" where
  "map_set [] k v = [(k, v)]"
| "map_set ((k', v') # m) k v = (if k' = k then (k, v) # m else (k', v') # map_set m k v)"

text \<open>\<^verbatim>\<open>hand[i]\<close> and \<^verbatim>\<open>hand.splice(i, 1)\<close> for an integer \<open>i\<close>.\<close>

definition at_index :: "slot list \<Rightarrow> int \<Rightarrow> slot" where
  "at_index xs i = (if 0 \<le> i \<and> nat i < length xs then xs ! nat i else None)"

definition splice1 :: "'a list \<Rightarrow> int \<Rightarrow> 'a list" where
  "splice1 xs i =
     (let k = (if i < 0 then nat (max (int (length xs) + i) 0) else nat i)
      in take k xs @ drop (Suc k) xs)"

text \<open>\<^verbatim>\<open>scores[i] = v\<close>: a negative \<open>i\<close> sets a property and leaves the elements alone; an
  \<open>i\<close> past the end extends the array with holes, which \<^verbatim>\<open>reduce\<close> skips (here 0).\<close>

definition array_set :: "int list \<Rightarrow> int \<Rightarrow> int \<Rightarrow> int list" where
  "array_set xs i v =
     (if i < 0 then xs
      else if nat i < length xs then xs[nat i := v]
      else xs @ replicate (nat i - length xs) 0 @ [v])"

section \<open>Operations of server.js\<close>

text \<open>\<^verbatim>\<open>Game.getCurrentPlayer\<close> (361-363): \<^verbatim>\<open>players[currentPlayerIndex]\<close>, \<^verbatim>\<open>undefined\<close>
  out of range.\<close>

definition getCurrentPlayer :: "game \<Rightarrow> string option" where
  "getCurrentPlayer g =
     (if currentPlayerIndex g < length (players g) then Some (players g ! currentPlayerIndex g)
      else None)"

text \<open>\<^verbatim>\<open>Game.nextTurn\<close> (366-373).  Scheduling the AI's turn only sets a timer.\<close>

definition nextTurn :: "game \<Rightarrow> game" where
  "nextTurn g =
     g\<lparr>currentPlayerIndex := (currentPlayerIndex g + 1) mod length (players g), hasDrawn := False\<rparr>"

text \<open>The loop over the players in \<^verbatim>\<open>Game.dealRound\<close> (342-353): it stops with a
  TypeError at a player without data.\<close>

fun deal_players :: "nat \<Rightarrow> string list \<Rightarrow> game \<Rightarrow> js_error option \<times> game" where
  "deal_players n [] g = (None, g)"
| "deal_players n (p # ps) g =
     (case playerData g p of
        None \<Rightarrow> (Some TypeError, g)
      | Some d \<Rightarrow>
          (case deal_n n [] (deck g) of
             (h, cs) \<Rightarrow>
               deal_players n ps
                 (g\<lparr>deck := cs,
                    playerData := (playerData g)(p \<mapsto>
                      d\<lparr>hand := h, melds := [], buys := 3, goneDown := False\<rparr>)\<rparr>)))"

text \<open>\<^verbatim>\<open>Game.dealRound\<close> (335-358).\<close>

definition dealRound :: "(nat \<Rightarrow> nat) \<Rightarrow> game \<Rightarrow> js_error option \<times> game" where
  "dealRound rnd g =
     (case deal (shuffle rnd initialize) of
        (top_card, cs) \<Rightarrow>
          (case deal_players (10 + currentRound g) (players g)
                  (g\<lparr>deck := cs, discardPile := [top_card]\<rparr>) of
             (Some e, g') \<Rightarrow> (Some e, g')
           | (None, g') \<Rightarrow>
               (None,
                g'\<lparr>currentPlayerIndex :=
                     (if currentRound g' = 1 then 0
                      else (currentRound g' - 1) mod length (players g')),
                   hasDrawn := False\<rparr>)))"

text \<open>\<^verbatim>\<open>Game.endGame\<close> (634-651).  \<^verbatim>\<open>finalScores\<close> is a \<^verbatim>\<open>Map\<close>; the sort is stable.\<close>

fun final_scores :: "(string \<rightharpoonup> playerData) \<Rightarrow> string list \<Rightarrow> (string \<times> int) list
    \<Rightarrow> js_error + (string \<times> int) list" where
  "final_scores pd [] m = Inr m"
| "final_scores pd (p # ps) m =
     (case pd p of
        None \<Rightarrow> Inl TypeError
      | Some d \<Rightarrow> final_scores pd ps (map_set m p (sum_list (scores d))))"

definition endGame :: "game \<Rightarrow> js_error + final_results" where
  "endGame g =
     (case final_scores (playerData g) (players g) [] of
        Inl e \<Rightarrow> Inl e
      | Inr finalScores \<Rightarrow>
          (case sort_key snd finalScores of
             [] \<Rightarrow> Inl TypeError
           | first # rest \<Rightarrow>
               Inr \<lparr>winner = fst first, winnerScore = snd first,
                    finalStandings = first # rest\<rparr>))"

text \<open>The scoring loop of \<^verbatim>\<open>Game.endRound\<close> (613-622).  The class \<^verbatim>\<open>Card\<close> of server.js
  (81-94) has the field \<^verbatim>\<open>scoreValue\<close> and no method \<^verbatim>\<open>getScoreValue\<close>, so the callback
  of \<^verbatim>\<open>reduce\<close> throws at the first element; on an empty hand it is never called.\<close>

definition hand_score :: "slot list \<Rightarrow> js_error + int" where
  "hand_score h = (if h = [] then Inr 0 else Inl TypeError)"

fun score_players :: "string \<Rightarrow> string list \<Rightarrow> game \<Rightarrow> js_error option \<times> game" where
  "score_players w [] g = (None, g)"
| "score_players w (p # ps) g =
     (case playerData g p of
        None \<Rightarrow> (Some TypeError, g)
      | Some d \<Rightarrow>
          (case (if p \<noteq> w then hand_score (hand d) else Inr 0) of
             Inl e \<Rightarrow> (Some e, g)
           | Inr score \<Rightarrow>
               score_players w ps
                 (g\<lparr>playerData := (playerData g)(p \<mapsto>
                      d\<lparr>scores := array_set (scores d) (int (currentRound g) - 1) score\<rparr>)\<rparr>)))"

text \<open>\<^verbatim>\<open>Game.endRound\<close> (611-631).\<close>

definition endRound :: "(nat \<Rightarrow> nat) \<Rightarrow> string \<Rightarrow> game \<Rightarrow> (js_error + round_result) \<times> game" where
  "endRound rnd w g =
     (case score_players w (players g) g of
        (Some e, g1) \<Rightarrow> (Inl e, g1)
      | (None, g1) \<Rightarrow>
          if 7 \<le> currentRound g1 then
            (case endGame g1 of
               Inl e \<Rightarrow> (Inl e, g1)
             | Inr res \<Rightarrow> (Inr (GameEnded res), g1))
          else
            (case dealRound rnd (g1\<lparr>currentRound := currentRound g1 + 1\<rparr>) of
               (Some e, g2) \<Rightarrow> (Inl e, g2)
             | (None, g2) \<Rightarrow> (Inr (NewRound (currentRound g2)), g2)))"

text \<open>\<^verbatim>\<open>Game.drawCard\<close> (425-444).  \<^verbatim>\<open>Deck.reset\<close> (135-144) refuses an empty pile; by
  then the top of the discard pile has been popped.\<close>

definition drawCard :: "(nat \<Rightarrow> nat) \<Rightarrow> string \<Rightarrow> game \<Rightarrow> reply \<times> game" where
  "drawCard rnd player g =
     (if getCurrentPlayer g \<noteq> Some player \<or> hasDrawn g then (Failure ''Cannot draw'', g)
      else
        case (if deck g = [] then
                (case deal (discardPile g) of
                   (top_card, pile) \<Rightarrow>
                     if pile = [] then (False, g\<lparr>discardPile := pile\<rparr>)
                     else (True, g\<lparr>deck := shuffle rnd pile, discardPile := [top_card]\<rparr>))
              else (True, g)) of
          (False, g1) \<Rightarrow> (Failure ''No cards available'', g1)
        | (True, g1) \<Rightarrow>
            (case playerData g1 player of
               None \<Rightarrow> (Thrown TypeError, g1)
             | Some d \<Rightarrow>
                 (case deal (deck g1) of
                    (c, cs) \<Rightarrow>
                      (Success None None,
                       g1\<lparr>deck := cs,
                          playerData := (playerData g1)(player \<mapsto> d\<lparr>hand := hand d @ [c]\<rparr>),
                          hasDrawn := True\<rparr>))))"

text \<open>\<^verbatim>\<open>Game.pickUpDiscard\<close> (447-459).  The message reads \<^verbatim>\<open>card.display\<close>.\<close>

definition pickUpDiscard :: "string \<Rightarrow> game \<Rightarrow> reply \<times> game" where
  "pickUpDiscard player g =
     (if getCurrentPlayer g \<noteq> Some player \<or> hasDrawn g \<or> discardPile g = [] then
        (Failure ''Cannot pick up'', g)
      else
        case deal (discardPile g) of
          (c, pile) \<Rightarrow>
            (case playerData g player of
               None \<Rightarrow> (Thrown TypeError, g\<lparr>discardPile := pile\<rparr>)
             | Some d \<Rightarrow>
                 (let g1 = g\<lparr>discardPile := pile,
                              playerData := (playerData g)(player \<mapsto> d\<lparr>hand := hand d @ [c]\<rparr>),
                              hasDrawn := True\<rparr>
                  in if c = None then (Thrown TypeError, g1) else (Success (Some c) None, g1))))"

text \<open>The go-down test of \<^verbatim>\<open>Game.makeMeld\<close> (481-484).\<close>

definition count_sets :: "requirement \<Rightarrow> meld list \<Rightarrow> nat" where
  "count_sets req ms = length (filter (\<lambda>m. type m = ''set'' \<and> minSetSize req \<le> length (cards m)) ms)"

definition count_runs :: "requirement \<Rightarrow> meld list \<Rightarrow> nat" where
  "count_runs req ms = length (filter (\<lambda>m. type m = ''run'' \<and> minRunSize req \<le> length (cards m)) ms)"

text \<open>\<^verbatim>\<open>Game.makeMeld\<close> (462-497).  \<^verbatim>\<open>indices.sort((a, b) => b - a)\<close> is \<open>rev (sort indices)\<close>
  up to the order of equal numbers.  With no index the callback of \<^verbatim>\<open>map\<close> never
  reads \<^verbatim>\<open>data.hand\<close>.\<close>

definition makeMeld :: "(nat \<Rightarrow> nat) \<Rightarrow> string \<Rightarrow> int list \<Rightarrow> string \<Rightarrow> game \<Rightarrow> reply \<times> game" where
  "makeMeld rnd player indices type' g =
     (if getCurrentPlayer g \<noteq> Some player then (Failure ''Not your turn'', g)
      else
        case playerData g player of
          None \<Rightarrow>
            (if indices = [] then (Failure ''Invalid meld'', g) else (Thrown TypeError, g))
        | Some d \<Rightarrow>
            (let cards' = map (at_index (hand d)) indices
             in case validateMeld cards' type' of
                  Inl e \<Rightarrow> (Thrown e, g)
                | Inr False \<Rightarrow> (Failure ''Invalid meld'', g)
                | Inr True \<Rightarrow>
                    (let d1 = d\<lparr>hand := fold (\<lambda>i h. splice1 h i) (rev (sort indices)) (hand d),
                                melds := melds d @ [\<lparr>type = type', cards = cards'\<rparr>]\<rparr>;
                         g1 = g\<lparr>playerData := (playerData g)(player \<mapsto> d1)\<rparr>
                     in case (if goneDown d1 then Some d1
                              else (case requirement_of (currentRound g1) of
                                      None \<Rightarrow> None
                                    | Some req \<Rightarrow>
                                        Some (if sets req \<le> count_sets req (melds d1) \<and>
                                                 runs req \<le> count_runs req (melds d1)
                                              then d1\<lparr>goneDown := True\<rparr> else d1))) of
                          None \<Rightarrow> (Thrown TypeError, g1)
                        | Some d2 \<Rightarrow>
                            (let g2 = g1\<lparr>playerData := (playerData g1)(player \<mapsto> d2)\<rparr>
                             in if hand d2 = [] \<and> goneDown d2 then
                                  (case endRound rnd player g2 of
                                     (Inl e, g3) \<Rightarrow> (Thrown e, g3)
                                   | (Inr res, g3) \<Rightarrow> (Success None (Some res), g3))
                                else (Success None None, g2)))))"

text \<open>\<^verbatim>\<open>AIPlayer.evaluateCard\<close> (160-176).  The callbacks of \<^verbatim>\<open>filter\<close> read a field of
  every element of the hand and of the card.\<close>

definition evaluateCard :: "slot \<Rightarrow> slot list \<Rightarrow> js_error + int" where
  "evaluateCard c h =
     (if h = [] then Inr 0
      else case c of
             None \<Rightarrow> Inl TypeError
           | Some k \<Rightarrow>
               if None \<in> set h then Inl TypeError
               else
                 (let hs = List.map_filter (\<lambda>s. s) h;
                      sameRank = int (length (filter (\<lambda>x. rank x = rank k) hs));
                      sameSuit = filter (\<lambda>x. suit x = suit k) hs
                  in Inr (sameRank * 3 +
                          sum_list (map (\<lambda>x. (if \<bar>card_value x - card_value k\<bar> = 1 then 4 else 0) +
                                               (if \<bar>card_value x - card_value k\<bar> = 2 then 2 else 0))
                                     sameSuit))))"

text \<open>\<^verbatim>\<open>AIPlayer.shouldBuy\<close> (178-183).\<close>

definition shouldBuy :: "difficulty \<Rightarrow> slot \<Rightarrow> slot list \<Rightarrow> int \<Rightarrow> js_error + bool" where
  "shouldBuy diff c h b =
     (if b \<le> 0 then Inr False
      else case evaluateCard c h of
             Inl e \<Rightarrow> Inl e
           | Inr v \<Rightarrow> Inr (v > (case diff of easy \<Rightarrow> 7 | medium \<Rightarrow> 5 | hard \<Rightarrow> 4)))"

text \<open>\<^verbatim>\<open>Game.endBuyPhase\<close> (604-608).\<close>

definition endBuyPhase :: "game \<Rightarrow> game" where
  "endBuyPhase g = nextTurn (g\<lparr>buyPhase := \<lparr>active = False, bp_card = None, requests = []\<rparr>\<rparr>)"

text \<open>The filter of \<^verbatim>\<open>Game.startBuyPhase\<close> (551-554): the players other than the current
  one with a buy left.\<close>

fun eligible_buyers :: "game \<Rightarrow> string list \<Rightarrow> js_error + string list" where
  "eligible_buyers g [] = Inr []"
| "eligible_buyers g (p # ps) =
     (if Some p = getCurrentPlayer g then eligible_buyers g ps
      else case playerData g p of
             None \<Rightarrow> Inl TypeError
           | Some d \<Rightarrow>
               (case eligible_buyers g ps of
                  Inl e \<Rightarrow> Inl e
                | Inr bs \<Rightarrow> Inr (if buys d > 0 then p # bs else bs)))"

text \<open>The loop over the buyers (562-576): an AI decides at once, a human is sent a
  message.\<close>

fun ask_buyers :: "slot \<Rightarrow> string list \<Rightarrow> game \<Rightarrow> js_error option \<times> game" where
  "ask_buyers c [] g = (None, g)"
| "ask_buyers c (p # ps) g =
     (case aiPlayers g p of
        None \<Rightarrow> ask_buyers c ps g
      | Some diff \<Rightarrow>
          (case playerData g p of
             None \<Rightarrow> (Some TypeError, g)
           | Some d \<Rightarrow>
               (case shouldBuy diff c (hand d) (buys d) of
                  Inl e \<Rightarrow> (Some e, g)
                | Inr wants \<Rightarrow>
                    ask_buyers c ps
                      (g\<lparr>buyPhase := (buyPhase g)\<lparr>requests := map_set (requests (buyPhase g)) p wants\<rparr>\<rparr>))))"

text \<open>\<^verbatim>\<open>Game.startBuyPhase\<close> (547-580).  The call of \<^verbatim>\<open>processBuyPhase\<close> is left to a
  timer of 3 seconds, unless nobody can buy.\<close>

definition startBuyPhase :: "slot \<Rightarrow> game \<Rightarrow> js_error option \<times> game" where
  "startBuyPhase c g =
     (let g1 = g\<lparr>buyPhase := \<lparr>active = True, bp_card = c, requests = []\<rparr>\<rparr>
      in case eligible_buyers g1 (players g1) of
           Inl e \<Rightarrow> (Some e, g1)
         | Inr buyers \<Rightarrow> if buyers = [] then (None, endBuyPhase g1) else ask_buyers c buyers g1)"

text \<open>\<^verbatim>\<open>Game.processBuyPhase\<close> (583-601).\<close>

definition processBuyPhase :: "game \<Rightarrow> js_error option \<times> game" where
  "processBuyPhase g =
     (case map fst (filter snd (requests (buyPhase g))) of
        [] \<Rightarrow> (None, endBuyPhase g)
      | buyer # others \<Rightarrow>
          (case playerData g buyer of
             None \<Rightarrow> (Some TypeError, g)
           | Some d \<Rightarrow>
               (case deal (discardPile g) of
                  (c, pile) \<Rightarrow>
                    (case deal (deck g) of
                       (penalty, cs) \<Rightarrow>
                         (None,
                          endBuyPhase
                            (g\<lparr>deck := cs, discardPile := pile,
                               playerData := (playerData g)(buyer \<mapsto>
                                 d\<lparr>hand := hand d @ [c, penalty], buys := buys d - 1\<rparr>)\<rparr>))))))"

text \<open>The handler of \<^verbatim>\<open>submitBuyRequest\<close> (883-894): any socket of the game may answer
  while the window is open, and the answer is stored under the sender's name.\<close>

definition submitBuyRequest :: "string \<Rightarrow> bool \<Rightarrow> game \<Rightarrow> game" where
  "submitBuyRequest player wantsCard g =
     (if \<not> active (buyPhase g) then g
      else g\<lparr>buyPhase := (buyPhase g)\<lparr>requests := map_set (requests (buyPhase g)) player wantsCard\<rparr>\<rparr>)"

text \<open>\<^verbatim>\<open>Game.discardCard\<close> (520-544).  The message reads \<^verbatim>\<open>card.display\<close>.\<close>

definition discardCard :: "(nat \<Rightarrow> nat) \<Rightarrow> string \<Rightarrow> int \<Rightarrow> game \<Rightarrow> reply \<times> game" where
  "discardCard rnd player index g =
     (if getCurrentPlayer g \<noteq> Some player \<or> \<not> hasDrawn g then (Failure ''Cannot discard'', g)
      else
        case playerData g player of
          None \<Rightarrow> (Thrown TypeError, g)
        | Some d \<Rightarrow>
            if index < 0 \<or> int (length (hand d)) \<le> index then (Failure ''Invalid card'', g)
            else
              (let c = hand d ! nat index;
                   d1 = d\<lparr>hand := splice1 (hand d) index\<rparr>;
                   g1 = g\<lparr>playerData := (playerData g)(player \<mapsto> d1),
                          discardPile := discardPile g @ [c]\<rparr>
               in if c = None then (Thrown TypeError, g1)
                  else if hand d1 = [] \<and> goneDown d1 then
                    (case endRound rnd player g1 of
                       (Inl e, g2) \<Rightarrow> (Thrown e, g2)
                     | (Inr res, g2) \<Rightarrow> (Success None (Some res), g2))
                  else
                    (case startBuyPhase c g1 of
                       (Some e, g2) \<Rightarrow> (Thrown e, g2)
                     | (None, g2) \<Rightarrow> (Success (Some c) None, g2))))"

section \<open>Game state of part_003\<close>

text \<open>The revision of part_003 keeps one \<^verbatim>\<open>Map\<close> per attribute (285-300).  The field
  \<^verbatim>\<open>canBuy\<close> of \<^verbatim>\<open>turnState\<close> is never read, and \<^verbatim>\<open>aiPlayers\<close> only decides whether
  a timer is set.\<close>

record game_p3 =
  players_p3 :: "string list"
  playerHands :: "string \<rightharpoonup> slot list"
  playerMelds :: "string \<rightharpoonup> meld list"
  playerBuys :: "string \<rightharpoonup> int"
  playerScores :: "string \<rightharpoonup> int list"
  currentRound_p3 :: nat
  currentPlayerIndex_p3 :: nat
  deck_p3 :: "slot list"
  discardPile_p3 :: "slot list"
  hasDrawn_p3 :: bool

definition getCurrentPlayer_p3 :: "game_p3 \<Rightarrow> string option" where
  "getCurrentPlayer_p3 g =
     (if currentPlayerIndex_p3 g < length (players_p3 g)
      then Some (players_p3 g ! currentPlayerIndex_p3 g) else None)"

text \<open>\<^verbatim>\<open>Game.nextTurn\<close>, part_003 367-373.\<close>

definition nextTurn_p3 :: "game_p3 \<Rightarrow> game_p3" where
  "nextTurn_p3 g =
     g\<lparr>currentPlayerIndex_p3 := (currentPlayerIndex_p3 g + 1) mod length (players_p3 g),
       hasDrawn_p3 := False\<rparr>"

text \<open>\<^verbatim>\<open>Game.dealRound\<close>, part_003 344-361: the hands are emptied, then the cards go
  round the table one at a time, then the discard pile gets its starter.\<close>

fun reset_players_p3 :: "string list \<Rightarrow> game_p3 \<Rightarrow> game_p3" where
  "reset_players_p3 [] g = g"
| "reset_players_p3 (p # ps) g =
     reset_players_p3 ps
       (g\<lparr>playerHands := (playerHands g)(p \<mapsto> []),
          playerMelds := (playerMelds g)(p \<mapsto> []),
          playerBuys := (playerBuys g)(p \<mapsto> 3)\<rparr>)"

fun deal_one_each_p3 :: "string list \<Rightarrow> game_p3 \<Rightarrow> js_error option \<times> game_p3" where
  "deal_one_each_p3 [] g = (None, g)"
| "deal_one_each_p3 (p # ps) g =
     (case playerHands g p of
        None \<Rightarrow> (Some TypeError, g)
      | Some h \<Rightarrow>
          (case deal (deck_p3 g) of
             (c, cs) \<Rightarrow>
               deal_one_each_p3 ps (g\<lparr>deck_p3 := cs, playerHands := (playerHands g)(p \<mapsto> h @ [c])\<rparr>)))"

fun deal_rounds_p3 :: "nat \<Rightarrow> game_p3 \<Rightarrow> js_error option \<times> game_p3" where
  "deal_rounds_p3 0 g = (None, g)"
| "deal_rounds_p3 (Suc n) g =
     (case deal_one_each_p3 (players_p3 g) g of
        (Some e, g') \<Rightarrow> (Some e, g')
      | (None, g') \<Rightarrow> deal_rounds_p3 n g')"

definition dealRound_p3 :: "(nat \<Rightarrow> nat) \<Rightarrow> game_p3 \<Rightarrow> js_error option \<times> game_p3" where
  "dealRound_p3 rnd g =
     (case deal_rounds_p3 (10 + currentRound_p3 g)
             (reset_players_p3 (players_p3 g)
                (g\<lparr>deck_p3 := shuffle rnd initialize, discardPile_p3 := []\<rparr>)) of
        (Some e, g') \<Rightarrow> (Some e, g')
      | (None, g') \<Rightarrow>
          (case deal (deck_p3 g') of
             (c, cs) \<Rightarrow>
               (None,
                g'\<lparr>deck_p3 := cs, discardPile_p3 := discardPile_p3 g' @ [c],
                   currentPlayerIndex_p3 := (currentRound_p3 g' - 1) mod length (players_p3 g'),
                   hasDrawn_p3 := False\<rparr>)))"

text \<open>\<^verbatim>\<open>Game.validatePlayerMeetsRoundRequirements\<close>, part_003 454-472: one pass over the
  player's melds with two counters.  \<open>None\<close> is the TypeError of reading a field of an
  \<^verbatim>\<open>undefined\<close> requirement.\<close>

fun tally_melds :: "requirement \<Rightarrow> meld list \<Rightarrow> nat \<times> nat \<Rightarrow> nat \<times> nat" where
  "tally_melds req [] acc = acc"
| "tally_melds req (m # ms) (validSets, validRuns) =
     (if type m = ''set'' \<and> minSetSize req \<le> length (cards m)
        then tally_melds req ms (validSets + 1, validRuns)
      else if type m = ''run'' \<and> minRunSize req \<le> length (cards m)
        then tally_melds req ms (validSets, validRuns + 1)
      else tally_melds req ms (validSets, validRuns))"

definition validatePlayerMeetsRoundRequirements :: "string \<Rightarrow> game_p3 \<Rightarrow> bool option" where
  "validatePlayerMeetsRoundRequirements playerName g =
     (case requirement_of (currentRound_p3 g) of
        None \<Rightarrow> None
      | Some req \<Rightarrow>
          (case tally_melds req (case playerMelds g playerName of None \<Rightarrow> [] | Some ms \<Rightarrow> ms) (0, 0) of
             (validSets, validRuns) \<Rightarrow> Some (sets req \<le> validSets \<and> runs req \<le> validRuns)))"

text \<open>The text \<^verbatim>\<open>ROUND_REQUIREMENTS[this.currentRound - 1].melds\<close> of the messages.\<close>

definition melds_of_round :: "game_p3 \<Rightarrow> string" where
  "melds_of_round g = (case requirement_of (currentRound_p3 g) of None \<Rightarrow> [] | Some req \<Rightarrow> melds_text req)"

text \<open>\<^verbatim>\<open>Game.endGame\<close>, part_003 653-662.\<close>

fun final_scores_p3 :: "(string \<rightharpoonup> int list) \<Rightarrow> string list \<Rightarrow> (string \<times> int) list
    \<Rightarrow> js_error + (string \<times> int) list" where
  "final_scores_p3 ps [] m = Inr m"
| "final_scores_p3 ps (p # rest) m =
     (case ps p of
        None \<Rightarrow> Inl TypeError
      | Some sc \<Rightarrow> final_scores_p3 ps rest (map_set m p (sum_list sc)))"

definition endGame_p3 :: "game_p3 \<Rightarrow> js_error + final_results" where
  "endGame_p3 g =
     (case final_scores_p3 (playerScores g) (players_p3 g) [] of
        Inl e \<Rightarrow> Inl e
      | Inr finalScores \<Rightarrow>
          (case sort_key snd finalScores of
             [] \<Rightarrow> Inl TypeError
           | first # rest \<Rightarrow>
               Inr \<lparr>winner = fst first, winnerScore = snd first,
                    finalStandings = first # rest\<rparr>))"

text \<open>\<^verbatim>\<open>hand.reduce((sum, card) => sum + card.getScoreValue(), 0)\<close> with the method
  \<^verbatim>\<open>getScoreValue\<close> that the class \<^verbatim>\<open>Card\<close> of part_003 (65-69) has.\<close>

fun hand_score_p3 :: "slot list \<Rightarrow> int \<Rightarrow> js_error + int" where
  "hand_score_p3 [] s = Inr s"
| "hand_score_p3 (None # h) s = Inl TypeError"
| "hand_score_p3 (Some c # h) s = hand_score_p3 h (s + scoreValue c)"

text \<open>The scoring loop of \<^verbatim>\<open>Game.endRound\<close>, part_003 634-642.\<close>

fun score_players_p3 :: "string \<Rightarrow> string list \<Rightarrow> game_p3 \<Rightarrow> js_error option \<times> game_p3" where
  "score_players_p3 w [] g = (None, g)"
| "score_players_p3 w (p # ps) g =
     (case (if p \<noteq> w then
              (case playerHands g p of None \<Rightarrow> Inl TypeError | Some h \<Rightarrow> hand_score_p3 h 0)
            else Inr 0) of
        Inl e \<Rightarrow> (Some e, g)
      | Inr roundScore \<Rightarrow>
          (case playerScores g p of
             None \<Rightarrow> (Some TypeError, g)
           | Some sc \<Rightarrow>
               score_players_p3 w ps
                 (g\<lparr>playerScores := (playerScores g)(p \<mapsto>
                      array_set sc (int (currentRound_p3 g) - 1) roundScore)\<rparr>)))"

text \<open>\<^verbatim>\<open>Game.endRound\<close>, part_003 633-651.\<close>

definition endRound_p3 :: "(nat \<Rightarrow> nat) \<Rightarrow> string \<Rightarrow> game_p3 \<Rightarrow> (js_error + round_result) \<times> game_p3" where
  "endRound_p3 rnd w g =
     (case score_players_p3 w (players_p3 g) g of
        (Some e, g1) \<Rightarrow> (Inl e, g1)
      | (None, g1) \<Rightarrow>
          if 7 \<le> currentRound_p3 g1 then
            (case endGame_p3 g1 of
               Inl e \<Rightarrow> (Inl e, g1)
             | Inr res \<Rightarrow> (Inr (GameEnded res), g1))
          else
            (case dealRound_p3 rnd (g1\<lparr>currentRound_p3 := currentRound_p3 g1 + 1\<rparr>) of
               (Some e, g2) \<Rightarrow> (Inl e, g2)
             | (None, g2) \<Rightarrow> (Inr (NewRound (currentRound_p3 g2)), g2)))"

section \<open>Operations of part_003\<close>

text \<open>\<^verbatim>\<open>Game.drawCard\<close>, part_003 476-503.\<close>

definition drawCard_p3 :: "(nat \<Rightarrow> nat) \<Rightarrow> string \<Rightarrow> game_p3 \<Rightarrow> reply \<times> game_p3" where
  "drawCard_p3 rnd playerName g =
     (if getCurrentPlayer_p3 g \<noteq> Some playerName \<or> hasDrawn_p3 g then
        (Failure ''Not your turn or already drawn'', g)
      else if deck_p3 g = [] \<and> length (discardPile_p3 g) \<le> 1 then
        (Failure ''No cards left to draw'', g)
      else
        (let g1 = (if deck_p3 g = [] then
                     (case deal (discardPile_p3 g) of
                        (topCard, pile) \<Rightarrow>
                          g\<lparr>deck_p3 := shuffle rnd pile, discardPile_p3 := [topCard]\<rparr>)
                   else g)
         in case deal (deck_p3 g1) of
              (c, cs) \<Rightarrow>
                (case playerHands g1 playerName of
                   None \<Rightarrow> (Thrown TypeError, g1\<lparr>deck_p3 := cs\<rparr>)
                 | Some h \<Rightarrow>
                     (Success (Some c) None,
                      g1\<lparr>deck_p3 := cs, playerHands := (playerHands g1)(playerName \<mapsto> h @ [c]),
                         hasDrawn_p3 := True\<rparr>))))"

text \<open>\<^verbatim>\<open>Game.pickUpDiscard\<close>, part_003 505-520.  The log line reads \<^verbatim>\<open>card.display\<close>.\<close>

definition pickUpDiscard_p3 :: "string \<Rightarrow> game_p3 \<Rightarrow> reply \<times> game_p3" where
  "pickUpDiscard_p3 playerName g =
     (if getCurrentPlayer_p3 g \<noteq> Some playerName \<or> hasDrawn_p3 g then
        (Failure ''Not your turn or already drawn'', g)
      else if discardPile_p3 g = [] then (Failure ''No card in discard pile'', g)
      else
        case deal (discardPile_p3 g) of
          (c, pile) \<Rightarrow>
            (case playerHands g playerName of
               None \<Rightarrow> (Thrown TypeError, g\<lparr>discardPile_p3 := pile\<rparr>)
             | Some h \<Rightarrow>
                 (let g1 = g\<lparr>discardPile_p3 := pile,
                              playerHands := (playerHands g)(playerName \<mapsto> h @ [c]),
                              hasDrawn_p3 := True\<rparr>
                  in if c = None then (Thrown TypeError, g1) else (Success (Some c) None, g1))))"

text \<open>\<^verbatim>\<open>Game.discardCard\<close>, part_003 553-583.\<close>

definition discardCard_p3 :: "(nat \<Rightarrow> nat) \<Rightarrow> string \<Rightarrow> int \<Rightarrow> game_p3 \<Rightarrow> reply \<times> game_p3" where
  "discardCard_p3 rnd playerName cardIndex g =
     (if getCurrentPlayer_p3 g \<noteq> Some playerName \<or> \<not> hasDrawn_p3 g then
        (Failure ''Not your turn or haven't drawn'', g)
      else
        case playerHands g playerName of
          None \<Rightarrow> (Thrown TypeError, g)
        | Some h \<Rightarrow>
            if cardIndex < 0 \<or> int (length h) \<le> cardIndex then (Failure ''Invalid card'', g)
            else
              (let discardedCard = h ! nat cardIndex;
                   h1 = splice1 h cardIndex;
                   g1 = g\<lparr>playerHands := (playerHands g)(playerName \<mapsto> h1),
                          discardPile_p3 := discardPile_p3 g @ [discardedCard]\<rparr>
               in if h1 = [] then
                    (case validatePlayerMeetsRoundRequirements playerName g1 of
                       None \<Rightarrow> (Thrown TypeError, g1)
                     | Some False \<Rightarrow>
                         (Failure (''Cannot go out! You need: '' @ melds_of_round g1),
                          g1\<lparr>playerHands := (playerHands g1)(playerName \<mapsto> h1 @ [discardedCard]),
                             discardPile_p3 := butlast (discardPile_p3 g1)\<rparr>)
                     | Some True \<Rightarrow>
                         (case endRound_p3 rnd playerName g1 of
                            (Inl e, g2) \<Rightarrow> (Thrown e, g2)
                          | (Inr res, g2) \<Rightarrow> (Success (Some discardedCard) (Some res), g2)))
                  else (Success (Some discardedCard) None, nextTurn_p3 g1)))"

text \<open>\<^verbatim>\<open>Game.makeMeld\<close>, part_003 602-631.  The meld keeps the array that
  \<^verbatim>\<open>validateMeld\<close> sorted.  When the hand is empty and the requirements are not met the
  call answers with a failure and undoes nothing.\<close>

definition makeMeld_p3 :: "(nat \<Rightarrow> nat) \<Rightarrow> string \<Rightarrow> int list \<Rightarrow> string \<Rightarrow> game_p3 \<Rightarrow> reply \<times> game_p3" where
  "makeMeld_p3 rnd playerName cardIndices meldType g =
     (if getCurrentPlayer_p3 g \<noteq> Some playerName then (Failure ''Not your turn'', g)
      else
        case (case playerHands g playerName of
                None \<Rightarrow> if cardIndices = [] then Some [] else None
              | Some h \<Rightarrow> Some h) of
          None \<Rightarrow> (Thrown TypeError, g)
        | Some h \<Rightarrow>
            (case validateMeld_p3 (map (at_index h) cardIndices) meldType of
               (Inl e, cards') \<Rightarrow> (Thrown e, g)
             | (Inr False, cards') \<Rightarrow> (Failure (''Invalid '' @ meldType), g)
             | (Inr True, cards') \<Rightarrow>
                 (let h1 = fold (\<lambda>i hd'. splice1 hd' i) (rev (sort cardIndices)) h;
                      ms = (case playerMelds g playerName of None \<Rightarrow> [] | Some ms \<Rightarrow> ms);
                      g1 = g\<lparr>playerHands := (playerHands g)(playerName \<mapsto> h1),
                             playerMelds := (playerMelds g)(playerName \<mapsto>
                               ms @ [\<lparr>type = meldType, cards = cards'\<rparr>])\<rparr>
                  in if h1 = [] then
                       (case validatePlayerMeetsRoundRequirements playerName g1 of
                          None \<Rightarrow> (Thrown TypeError, g1)
                        | Some False \<Rightarrow>
                            (Failure (''You've melded all cards but don't meet round requirements: ''
                                        @ melds_of_round g1), g1)
                        | Some True \<Rightarrow>
                            (case endRound_p3 rnd playerName g1 of
                               (Inl e, g2) \<Rightarrow> (Thrown e, g2)
                             | (Inr res, g2) \<Rightarrow> (Success None (Some res), g2)))
                     else (Success None None, g1))))"

text \<open>\<^verbatim>\<open>Game.canLayOffCard\<close>, part_003 443-452.\<close>

definition canLayOffCard :: "slot \<Rightarrow> meld \<Rightarrow> js_error + bool" where
  "canLayOffCard c m =
     (if type m = ''set'' then
        (if cards m = [] then Inr True
         else case c of
                None \<Rightarrow> Inl TypeError
              | Some k \<Rightarrow> every_js (\<lambda>meldCard. rank meldCard = rank k) (cards m))
      else if type m = ''run'' then
        (case (c, at_index (cards m) 0) of
           (Some k, Some first) \<Rightarrow>
             if suit k \<noteq> suit first then Inr False
             else if None \<in> set (cards m) then Inl TypeError
             else
               (let values = sort (map card_value (List.map_filter (\<lambda>s. s) (cards m)))
                in Inr (card_value k = values ! 0 - 1 \<or>
                        card_value k = values ! (length values - 1) + 1))
         | _ \<Rightarrow> Inl TypeError)
      else Inr False)"

text \<open>\<^verbatim>\<open>Game.layOffCard\<close>, part_003 392-441.  In part_001 (580-632) the method reads
  the undeclared variable \<^verbatim>\<open>game\<close> after the turn check and has no check of the
  requirements before the lay-off.\<close>

definition layOffCard_p3 ::
    "(nat \<Rightarrow> nat) \<Rightarrow> string \<Rightarrow> int \<Rightarrow> string \<Rightarrow> int \<Rightarrow> game_p3 \<Rightarrow> reply \<times> game_p3" where
  "layOffCard_p3 rnd playerName cardIndex targetPlayerName meldIndex g =
     (if getCurrentPlayer_p3 g \<noteq> Some playerName then (Failure ''Not your turn'', g)
      else
        case validatePlayerMeetsRoundRequirements playerName g of
          None \<Rightarrow> (Thrown TypeError, g)
        | Some False \<Rightarrow>
            (Failure ''You must meet your round requirements before laying off cards.'', g)
        | Some True \<Rightarrow>
            (case playerHands g playerName of
               None \<Rightarrow> (Thrown TypeError, g)
             | Some h \<Rightarrow>
                 if cardIndex < 0 \<or> int (length h) \<le> cardIndex then (Failure ''Invalid card'', g)
                 else
                   (case playerMelds g targetPlayerName of
                      None \<Rightarrow> (Failure ''Invalid target meld'', g)
                    | Some targetMelds \<Rightarrow>
                        if meldIndex < 0 \<or> int (length targetMelds) \<le> meldIndex then
                          (Failure ''Invalid target meld'', g)
                        else
                          (let c = h ! nat cardIndex;
                               targetMeld = targetMelds ! nat meldIndex
                           in case canLayOffCard c targetMeld of
                                Inl e \<Rightarrow> (Thrown e, g)
                              | Inr False \<Rightarrow> (Failure ''Card cannot be added to that meld'', g)
                              | Inr True \<Rightarrow>
                                  (let h1 = splice1 h cardIndex;
                                       g1 = g\<lparr>playerHands := (playerHands g)(playerName \<mapsto> h1),
                                              playerMelds := (playerMelds g)(targetPlayerName \<mapsto>
                                                targetMelds[nat meldIndex :=
                                                  targetMeld\<lparr>cards := cards targetMeld @ [c]\<rparr>])\<rparr>
                                   in if c = None then (Thrown TypeError, g1)
                                      else if h1 = [] then
                                        (case validatePlayerMeetsRoundRequirements playerName g1 of
                                           None \<Rightarrow> (Thrown TypeError, g1)
                                         | Some False \<Rightarrow>
                                             (Failure (''Cannot go out! You need: '' @ melds_of_round g1),
                                              g1\<lparr>playerHands := (playerHands g1)(playerName \<mapsto>
                                                     take (nat cardIndex) h1 @ [c] @ drop (nat cardIndex) h1),
                                                 playerMelds := (playerMelds g1)(targetPlayerName \<mapsto>
                                                     targetMelds[nat meldIndex :=
                                                       targetMeld\<lparr>cards := butlast (cards targetMeld @ [c])\<rparr>])\<rparr>)
                                         | Some True \<Rightarrow>
                                             (case endRound_p3 rnd playerName g1 of
                                                (Inl e, g2) \<Rightarrow> (Thrown e, g2)
                                              | (Inr res, g2) \<Rightarrow> (Success (Some c) (Some res), g2)))
                                      else (Success (Some c) None, g1))))))"

text \<open>\<^verbatim>\<open>Game.layOffCard\<close>, part_001 580-632: after the turn check the method reads
  \<^verbatim>\<open>game.playerHands\<close>, and no variable \<^verbatim>\<open>game\<close> is in scope of the class, so the call
  ends there with a ReferenceError.\<close>

definition layOffCard_p1 :: "string \<Rightarrow> int \<Rightarrow> string \<Rightarrow> int \<Rightarrow> game_p3 \<Rightarrow> reply \<times> game_p3" where
  "layOffCard_p1 playerName cardIndex targetPlayerName meldIndex g =
     (if getCurrentPlayer_p3 g \<noteq> Some playerName then (Failure ''Not your turn'', g)
      else (Thrown ReferenceError, g))"

text \<open>Specification side: each value is its predecessor plus 1.\<close>

fun step_one :: "int list \<Rightarrow> bool" where
  "step_one (a # b # rest) = (b = a + 1 \<and> step_one (b # rest))"
| "step_one [a] = True"
| "step_one [] = True"

text \<open>Specification side: every array element that holds a card of the round, in the
  stock, the discard pile, the hands and the melds of the players.\<close>

definition cards_of_player :: "game \<Rightarrow> string \<Rightarrow> slot list" where
  "cards_of_player g p =
     (case playerData g p of None \<Rightarrow> [] | Some d \<Rightarrow> hand d @ concat (map cards (melds d)))"

definition all_cards :: "game \<Rightarrow> slot list" where
  "all_cards g = deck g @ discardPile g @ concat (map (cards_of_player g) (players g))"

text \<open>Specification side: a state of part_003 as the game produces it: the players are
  distinct, the round is one of the seven, every player has a hand of cards and a score
  array, and every meld on the table is a non-empty array of cards.\<close>

definition well_formed_p3 :: "game_p3 \<Rightarrow> bool" where
  "well_formed_p3 g \<longleftrightarrow>
     distinct (players_p3 g) \<and> requirement_of (currentRound_p3 g) \<noteq> None
     \<and> (\<forall>p \<in> set (players_p3 g).
           (\<exists>h. playerHands g p = Some h \<and> None \<notin> set h) \<and> playerScores g p \<noteq> None)
     \<and> (\<forall>p ms. playerMelds g p = Some ms \<longrightarrow>
           (\<forall>m \<in> set ms. cards m \<noteq> [] \<and> None \<notin> set (cards m)))"

section \<open>Concrete states\<close>

text \<open>States used to run the operations.  Ann is to play in round 1 (two sets of
  three); she has drawn, has laid down one set and two runs, and holds one card.\<close>

definition no_buy_phase :: buyPhase where
  "no_buy_phase = \<lparr>active = False, bp_card = None, requests = []\<rparr>"

definition anns_melds :: "meld list" where
  "anns_melds =
     [\<lparr>type = ''set'', cards = [Some (Card hearts R7), Some (Card diamonds R7), Some (Card clubs R7)]\<rparr>,
      \<lparr>type = ''run'', cards = [Some (Card spades R2), Some (Card spades R3), Some (Card spades R4),
                                  Some (Card spades R5)]\<rparr>,
      \<lparr>type = ''run'', cards = [Some (Card clubs R6), Some (Card clubs R7), Some (Card clubs R8),
                                  Some (Card clubs R9)]\<rparr>]"

definition bobs_data :: playerData where
  "bobs_data =
     \<lparr>hand = [Some (Card hearts R2), Some (Card diamonds R9), Some (Card clubs Q),
              Some (Card hearts R5), Some (Card spades A), Some (Card diamonds J),
              Some (Card clubs R3), Some (Card hearts R10), Some (Card spades R8),
              Some (Card diamonds R6), Some (Card clubs K)],
      melds = [], buys = 3, scores = [0, 0, 0, 0, 0, 0, 0], goneDown = False\<rparr>"

definition last_card_game :: game where
  "last_card_game =
     \<lparr>players = [''Ann'', ''Bob''],
      aiPlayers = Map.empty,
      playerData =
        [''Ann'' \<mapsto> \<lparr>hand = [Some (Card hearts K)], melds = anns_melds, buys = 3,
                      scores = [0, 0, 0, 0, 0, 0, 0], goneDown = False\<rparr>,
         ''Bob'' \<mapsto> bobs_data],
      currentRound = 1,
      currentPlayerIndex = 0,
      deck = [Some (Card diamonds R4), Some (Card spades J)],
      discardPile = [Some (Card spades R2)],
      hasDrawn = True,
      buyPhase = no_buy_phase\<rparr>"

text \<open>Ann has laid down two runs and holds three sevens.\<close>

definition two_runs :: "meld list" where
  "two_runs =
     [\<lparr>type = ''run'', cards = [Some (Card spades R2), Some (Card spades R3), Some (Card spades R4),
                                  Some (Card spades R5)]\<rparr>,
      \<lparr>type = ''run'', cards = [Some (Card clubs R6), Some (Card clubs R7), Some (Card clubs R8),
                                  Some (Card clubs R9), Some (Card clubs R10)]\<rparr>]"

definition three_sevens :: "slot list" where
  "three_sevens = [Some (Card hearts R7), Some (Card diamonds R7), Some (Card clubs R7)]"

definition last_meld_game :: game where
  "last_meld_game =
     \<lparr>players = [''Ann'', ''Bob''],
      aiPlayers = Map.empty,
      playerData =
        [''Ann'' \<mapsto> \<lparr>hand = three_sevens, melds = two_runs, buys = 3,
                      scores = [0, 0, 0, 0, 0, 0, 0], goneDown = False\<rparr>,
         ''Bob'' \<mapsto> bobs_data],
      currentRound = 1,
      currentPlayerIndex = 0,
      deck = [Some (Card diamonds R4), Some (Card spades J)],
      discardPile = [Some (Card spades R2)],
      hasDrawn = True,
      buyPhase = no_buy_phase\<rparr>"

definition last_meld_game_p3 :: game_p3 where
  "last_meld_game_p3 =
     \<lparr>players_p3 = [''Ann'', ''Bob''],
      playerHands = [''Ann'' \<mapsto> three_sevens, ''Bob'' \<mapsto> hand bobs_data],
      playerMelds = [''Ann'' \<mapsto> two_runs, ''Bob'' \<mapsto> []],
      playerBuys = [''Ann'' \<mapsto> 3, ''Bob'' \<mapsto> 3],
      playerScores = [''Ann'' \<mapsto> [0, 0, 0, 0, 0, 0, 0], ''Bob'' \<mapsto> [0, 0, 0, 0, 0, 0, 0]],
      currentRound_p3 = 1,
      currentPlayerIndex_p3 = 0,
      deck_p3 = [Some (Card diamonds R4), Some (Card spades J)],
      discardPile_p3 = [Some (Card spades R2)],
      hasDrawn_p3 = True\<rparr>"

text \<open>The stock is empty and the discard pile holds its top card only; Ann is to draw.\<close>

definition dry_stock_game :: game where
  "dry_stock_game =
     \<lparr>players = [''Ann'', ''Bob''],
      aiPlayers = Map.empty,
      playerData =
        [''Ann'' \<mapsto> \<lparr>hand = [Some (Card hearts K)], melds = anns_melds, buys = 2,
                      scores = [0, 0, 0, 0, 0, 0, 0], goneDown = False\<rparr>,
         ''Bob'' \<mapsto> bobs_data],
      currentRound = 1,
      currentPlayerIndex = 0,
      deck = [],
      discardPile = [Some (Card spades R2)],
      hasDrawn = False,
      buyPhase = no_buy_phase\<rparr>"

definition anns_hand :: "slot list" where
  "anns_hand =
     [Some (Card hearts Q), Some (Card spades R4), Some (Card diamonds R2), Some (Card clubs R5),
      Some (Card hearts R3), Some (Card spades R9), Some (Card diamonds K), Some (Card clubs A),
      Some (Card hearts R8), Some (Card spades R6), Some (Card diamonds R10)]"

definition cys_hand :: "slot list" where
  "cys_hand =
     [Some (Card spades R5), Some (Card hearts R4), Some (Card diamonds R7), Some (Card clubs R2),
      Some (Card hearts R6), Some (Card spades Q), Some (Card diamonds R3), Some (Card clubs J),
      Some (Card hearts A), Some (Card spades R3), Some (Card diamonds R8)]"

text \<open>Cy has discarded the king of hearts; Bob's request to buy it came in before
  Ann's.\<close>

definition buy_window_game :: game where
  "buy_window_game =
     \<lparr>players = [''Ann'', ''Bob'', ''Cy''],
      aiPlayers = Map.empty,
      playerData =
        [''Ann'' \<mapsto> \<lparr>hand = anns_hand, melds = [], buys = 3,
                      scores = [0, 0, 0, 0, 0, 0, 0], goneDown = False\<rparr>,
         ''Bob'' \<mapsto> bobs_data,
         ''Cy'' \<mapsto> \<lparr>hand = cys_hand, melds = [], buys = 3,
                     scores = [0, 0, 0, 0, 0, 0, 0], goneDown = False\<rparr>],
      currentRound = 1,
      currentPlayerIndex = 2,
      deck = [Some (Card diamonds R4), Some (Card spades J)],
      discardPile = [Some (Card spades R2), Some (Card hearts K)],
      hasDrawn = True,
      buyPhase = \<lparr>active = True, bp_card = Some (Card hearts K),
                   requests = [(''Bob'', True), (''Ann'', True)]\<rparr>\<rparr>"

text \<open>Round 7 has been scored: Ann's seven rounds sum to 95, Bob's to 62, Cy's to 62.\<close>

definition scored_game :: game where
  "scored_game =
     \<lparr>players = [''Ann'', ''Bob'', ''Cy''],
      aiPlayers = Map.empty,
      playerData =
        [''Ann'' \<mapsto> \<lparr>hand = [Some (Card hearts Q)], melds = [], buys = 3,
                      scores = [0, 25, 10, 0, 40, 15, 5], goneDown = False\<rparr>,
         ''Bob'' \<mapsto> \<lparr>hand = [], melds = [], buys = 3,
                      scores = [12, 0, 0, 30, 0, 20, 0], goneDown = True\<rparr>,
         ''Cy'' \<mapsto> \<lparr>hand = [Some (Card spades R5)], melds = [], buys = 3,
                     scores = [7, 3, 22, 0, 5, 0, 25], goneDown = False\<rparr>],
      currentRound = 7,
      currentPlayerIndex = 1,
      deck = [Some (Card diamonds R4), Some (Card spades J)],
      discardPile = [Some (Card spades R2)],
      hasDrawn = True,
      buyPhase = no_buy_phase\<rparr>"

text \<open>Round 1 in part_003: Ann has drawn and has gone down with two sets; Bob has a
  run of clubs from 3 to 6 on the table.\<close>

definition lay_off_game_p3 :: game_p3 where
  "lay_off_game_p3 =
     \<lparr>players_p3 = [''Ann'', ''Bob''],
      playerHands = [''Ann'' \<mapsto> [Some (Card spades R7), Some (Card clubs R2), Some (Card hearts K)],
                     ''Bob'' \<mapsto> hand bobs_data],
      playerMelds =
        [''Ann'' \<mapsto> [\<lparr>type = ''set'', cards = three_sevens\<rparr>,
                      \<lparr>type = ''set'', cards = [Some (Card hearts R9), Some (Card diamonds R9),
                                                  Some (Card clubs R9)]\<rparr>],
         ''Bob'' \<mapsto> [\<lparr>type = ''run'', cards = [Some (Card clubs R3), Some (Card clubs R4),
                                                  Some (Card clubs R5), Some (Card clubs R6)]\<rparr>]],
      playerBuys = [''Ann'' \<mapsto> 3, ''Bob'' \<mapsto> 3],
      playerScores = [''Ann'' \<mapsto> [0, 0, 0, 0, 0, 0, 0], ''Bob'' \<mapsto> [0, 0, 0, 0, 0, 0, 0]],
      currentRound_p3 = 1,
      currentPlayerIndex_p3 = 0,
      deck_p3 = [Some (Card diamonds R4), Some (Card spades J)],
      discardPile_p3 = [Some (Card spades R2)],
      hasDrawn_p3 = True\<rparr>"

text \<open>A lobby of server.js with the host and the six AI players that the join handler
  allows (742), about to deal round 7.\<close>

definition fresh_data :: playerData where
  "fresh_data = \<lparr>hand = [], melds = [], buys = 3, scores = [0, 0, 0, 0, 0, 0, 0], goneDown = False\<rparr>"

definition full_table :: game where
  "full_table =
     \<lparr>players = [''Ann'', ''Hiro'', ''Honey Lemon'', ''Rosie'', ''Oreo'', ''Hiro5'', ''Honey Lemon6''],
      aiPlayers = [''Hiro'' \<mapsto> easy, ''Honey Lemon'' \<mapsto> medium, ''Rosie'' \<mapsto> hard,
                   ''Oreo'' \<mapsto> easy, ''Hiro5'' \<mapsto> medium, ''Honey Lemon6'' \<mapsto> hard],
      playerData = [''Ann'' \<mapsto> fresh_data, ''Hiro'' \<mapsto> fresh_data, ''Honey Lemon'' \<mapsto> fresh_data,
                    ''Rosie'' \<mapsto> fresh_data, ''Oreo'' \<mapsto> fresh_data, ''Hiro5'' \<mapsto> fresh_data,
                    ''Honey Lemon6'' \<mapsto> fresh_data],
      currentRound = 7,
      currentPlayerIndex = 0,
      deck = [],
      discardPile = [],
      hasDrawn = False,
      buyPhase = no_buy_phase\<rparr>"

text \<open>Ann and Bob before the first deal.\<close>

definition two_player_lobby :: game where
  "two_player_lobby =
     \<lparr>players = [''Ann'', ''Bob''],
      aiPlayers = Map.empty,
      playerData = [''Ann'' \<mapsto> fresh_data, ''Bob'' \<mapsto> fresh_data],
      currentRound = 1,
      currentPlayerIndex = 0,
      deck = [],
      discardPile = [],
      hasDrawn = False,
      buyPhase = no_buy_phase\<rparr>"

section \<open>Facts about meld validation\<close>

lemma every_js_Some: "every_js p (map Some cs) = Inr (\<forall>c \<in> set cs. p c)"
  by (induction cs) auto
lemma map_sort_key: "map f (sort_key f xs) = sort (map f xs)"
  by (rule sym, rule properties_for_sort) simp_all

lemma sort_by_value_Some: "sort_by_value (map Some cs) = map Some (sort_key card_value cs)"
proof -
  have "List.map_filter (\<lambda>s. s) (map Some cs) = cs"
    by (induction cs) (simp_all add: List.map_filter_simps)
  moreover have "filter (\<lambda>s. s = None) (map Some cs) = []"
    by (induction cs) simp_all
  ultimately show ?thesis by (simp add: sort_by_value_def)
qed

lemma consecutive_Some: "consecutive (map Some cs) = Inr (step_one (map card_value cs))"
  by (induction cs rule: induct_list012) auto

lemma step_one_nth:
  "step_one vs \<longleftrightarrow> (\<forall>i. 0 < i \<and> i < length vs \<longrightarrow> vs ! i = vs ! (i - 1) + 1)"
proof (induction vs rule: induct_list012)
  case 1
  show ?case by simp
next
  case (2 x)
  show ?case by auto
next
  case (3 x y zs)
  have "(\<forall>i. 0 < i \<and> i < length (x # y # zs) \<longrightarrow> (x # y # zs) ! i = (x # y # zs) ! (i - 1) + 1)
     \<longleftrightarrow> (y = x + 1 \<and> (\<forall>i. 0 < i \<and> i < length (y # zs) \<longrightarrow> (y # zs) ! i = (y # zs) ! (i - 1) + 1))"
    (is "?L \<longleftrightarrow> ?R")
  proof
    assume l: ?L
    have "y = x + 1" using l [rule_format, of 1] by simp
    moreover have "(y # zs) ! i = (y # zs) ! (i - 1) + 1" if "0 < i \<and> i < length (y # zs)" for i
      using l [rule_format, of "Suc i"] that by simp
    ultimately show ?R by blast
  next
    assume r: ?R
    show ?L
    proof (intro allI impI)
      fix i assume i: "0 < i \<and> i < length (x # y # zs)"
      then obtain k where k: "i = Suc k" by (cases i) auto
      show "(x # y # zs) ! i = (x # y # zs) ! (i - 1) + 1"
      proof (cases k)
        case 0
        then show ?thesis using r k by simp
      next
        case (Suc m)
        then show ?thesis using r [THEN conjunct2, rule_format, of k] k i by simp
      qed
    qed
  qed
  then show ?case using 3 by simp
qed

lemma step_one_distinct:
  assumes "step_one vs"
  shows "distinct vs"
proof -
  have st: "\<And>i. 0 < i \<and> i < length vs \<Longrightarrow> vs ! i = vs ! (i - 1) + 1"
    using assms step_one_nth by blast
  have lin: "i < length vs \<Longrightarrow> vs ! i = vs ! 0 + int i" for i
  proof (induction i)
    case 0
    show ?case by simp
  next
    case (Suc i)
    then show ?case using st [of "Suc i"] by simp
  qed
  show ?thesis
    unfolding distinct_conv_nth
  proof (intro allI impI)
    fix i j assume "i < length vs" "j < length vs" "i \<noteq> j"
    then show "vs ! i \<noteq> vs ! j" using lin [of i] lin [of j] by simp
  qed
qed

lemma validateMeld_p3_agrees: "fst (validateMeld_p3 cs t) = validateMeld cs t"
proof (cases "cs ! 0")
  case None
  then show ?thesis
    by (cases cs) (auto simp: validateMeld_p3_def validateMeld_def)
next
  case (Some c0)
  then show ?thesis
    by (auto simp: validateMeld_p3_def validateMeld_def split: sum.splits bool.splits)
qed

lemma validateMeld_set_cards:
  "validateMeld (map Some cs) ''set'' =
     Inr (3 \<le> length cs \<and> (\<forall>c \<in> set cs. rank c = rank (hd cs)))"
  by (cases cs) (auto simp: validateMeld_def every_js_Some)

lemma validateMeld_run_cards:
  "validateMeld (map Some cs) ''run'' =
     Inr (4 \<le> length cs \<and> (\<forall>c \<in> set cs. suit c = suit (hd cs)) \<and>
          step_one (sort (map card_value cs)))"
proof (cases "length cs < 4")
  case True
  then show ?thesis by (simp add: validateMeld_def)
next
  case False
  then have h0: "map Some cs ! 0 = Some (hd cs)"
    by (cases cs) simp_all
  have cons: "consecutive (sort_by_value (map Some cs)) = Inr (step_one (sort (map card_value cs)))"
    by (simp only: sort_by_value_Some consecutive_Some map_sort_key)
  have ev: "every_js (\<lambda>c. suit c = suit (hd cs)) (map Some cs)
      = Inr (\<forall>c \<in> set cs. suit c = suit (hd cs))"
    by (rule every_js_Some)
  have "validateMeld (map Some cs) ''run'' =
      (case every_js (\<lambda>c. suit c = suit (hd cs)) (map Some cs) of
         Inl e \<Rightarrow> Inl e
       | Inr False \<Rightarrow> Inr False
       | Inr True \<Rightarrow> consecutive (sort_by_value (map Some cs)))"
    using False by (simp add: validateMeld_def h0)
  also have "\<dots> = Inr (4 \<le> length cs \<and> (\<forall>c \<in> set cs. suit c = suit (hd cs)) \<and>
          step_one (sort (map card_value cs)))"
    unfolding ev cons using False by (simp split: bool.splits)
  finally show ?thesis .
qed

text \<open>
  Claim C3.  On an array of cards, \<^verbatim>\<open>validateMeld(cards, 'set')\<close> is true exactly when
  there are at least 3 cards and every rank equals the first card's rank;
  \<^verbatim>\<open>validateMeld(cards, 'run')\<close> is true exactly when there are at least 4 cards, every
  suit equals the first card's suit, and in the values sorted ascending each one is its
  predecessor plus 1; two cards of equal value always make a run invalid.  The revision
  of part_003 returns the same answers.
\<close>

theorem validateMeld_spec:
  "validateMeld (map Some cs) ''set'' =
     Inr (3 \<le> length cs \<and> (\<forall>c \<in> set cs. rank c = rank (hd cs)))
   \<and> validateMeld (map Some cs) ''run'' =
     Inr (4 \<le> length cs \<and> (\<forall>c \<in> set cs. suit c = suit (hd cs)) \<and>
          (\<forall>i. 0 < i \<and> i < length cs \<longrightarrow>
             sort (map card_value cs) ! i = sort (map card_value cs) ! (i - 1) + 1))
   \<and> (\<forall>i j. i < j \<and> j < length cs \<and> card_value (cs ! i) = card_value (cs ! j)
         \<longrightarrow> validateMeld (map Some cs) ''run'' = Inr False)
   \<and> fst (validateMeld_p3 (map Some cs) ''set'') = validateMeld (map Some cs) ''set''
   \<and> fst (validateMeld_p3 (map Some cs) ''run'') = validateMeld (map Some cs) ''run''"
proof -
  let ?vs = "sort (map card_value cs)"
  have len: "length ?vs = length cs" by simp
  have step: "step_one ?vs \<longleftrightarrow>
      (\<forall>i. 0 < i \<and> i < length cs \<longrightarrow> ?vs ! i = ?vs ! (i - 1) + 1)"
    using step_one_nth [of ?vs] len by simp
  have run_eq: "validateMeld (map Some cs) ''run'' =
     Inr (4 \<le> length cs \<and> (\<forall>c \<in> set cs. suit c = suit (hd cs)) \<and>
          (\<forall>i. 0 < i \<and> i < length cs \<longrightarrow> ?vs ! i = ?vs ! (i - 1) + 1))"
    using validateMeld_run_cards [of cs] step by simp
  have dup: "validateMeld (map Some cs) ''run'' = Inr False"
    if h: "i < j \<and> j < length cs \<and> card_value (cs ! i) = card_value (cs ! j)" for i j
  proof -
    have "\<not> distinct (map card_value cs)"
    proof
      assume d: "distinct (map card_value cs)"
      have "i < length (map card_value cs)" "j < length (map card_value cs)" "i \<noteq> j"
        using h by simp_all
      then have "map card_value cs ! i \<noteq> map card_value cs ! j"
        using d nth_eq_iff_index_eq by blast
      then show False using h by simp
    qed
    then have "\<not> distinct ?vs" by simp
    then have "\<not> step_one ?vs" using step_one_distinct by blast
    then show ?thesis using validateMeld_run_cards [of cs] by simp
  qed
  show ?thesis
    apply (intro conjI)
        apply (rule validateMeld_set_cards)
       apply (rule run_eq)
      apply (intro allI impI)
      apply (erule dup)
     apply (rule validateMeld_p3_agrees)
    apply (rule validateMeld_p3_agrees)
    done
qed


theorem validateMeld_spec_witness:
  "validateMeld [Some (Card hearts R7), Some (Card clubs R7), Some (Card hearts R7)] ''set'' = Inr True
   \<and> validateMeld [Some (Card hearts R7), Some (Card hearts R8), Some (Card hearts R7),
        Some (Card hearts R9)] ''run'' = Inr False"
proof -
  have a: "validateMeld [Some (Card hearts R7), Some (Card clubs R7), Some (Card hearts R7)] ''set'' = Inr True"
    using validateMeld_spec [of "[Card hearts R7, Card clubs R7, Card hearts R7]", THEN conjunct1]
    by simp
  have b: "validateMeld [Some (Card hearts R7), Some (Card hearts R8), Some (Card hearts R7),
        Some (Card hearts R9)] ''run'' = Inr False"
    using validateMeld_spec [of "[Card hearts R7, Card hearts R8, Card hearts R7, Card hearts R9]",
        THEN conjunct2, THEN conjunct2, THEN conjunct1, rule_format, of 0 2]
    by simp
  show ?thesis using a b by simp
qed

section \<open>Dealing a round\<close>

lemma length_shuffle_from [simp]: "length (shuffle_from rnd i cs) = length cs"
  by (induction i arbitrary: cs) (simp_all add: Let_def)

lemma mset_shuffle_from: "i < length cs \<Longrightarrow> mset (shuffle_from rnd i cs) = mset cs"
proof (induction i arbitrary: cs)
  case 0
  show ?case by simp
next
  case (Suc i)
  let ?j = "rnd (Suc i) mod (Suc i + 1)"
  have j: "?j < length cs" using Suc.prems by (metis Suc_eq_plus1 less_Suc_eq_le less_le_trans mod_less_divisor not_less zero_less_Suc)
  have "mset (cs[Suc i := cs ! ?j, ?j := cs ! Suc i]) = mset cs"
    using mset_swap [OF j Suc.prems] .
  moreover have "i < length (cs[Suc i := cs ! ?j, ?j := cs ! Suc i])" using Suc.prems by simp
  ultimately show ?case using Suc.IH by (simp add: Let_def)
qed

lemma length_shuffle [simp]: "length (shuffle rnd cs) = length cs"
  by (simp add: shuffle_def)

lemma mset_shuffle [simp]: "mset (shuffle rnd cs) = mset cs"
proof (cases cs)
  case Nil
  then show ?thesis by (simp add: shuffle_def)
next
  case (Cons a as)
  then show ?thesis by (simp add: shuffle_def mset_shuffle_from)
qed

lemma set_shuffle [simp]: "set (shuffle rnd cs) = set cs"
  using mset_shuffle [of rnd cs] by (metis set_mset_mset)

lemma upt_0_2: "[0..<2] = [0, Suc 0]"
  by (simp add: upt_rec)

lemma length_initialize: "length initialize = 104"
  by (simp add: initialize_def SUITS_def RANKS_def upt_0_2)

lemma initialize_defined: "None \<notin> set initialize"
  by (simp add: initialize_def SUITS_def RANKS_def upt_0_2)

lemma deal_nonempty: "cs \<noteq> [] \<Longrightarrow> deal cs = (last cs, butlast cs)"
  by (simp add: deal_def)

lemma deal_n_enough:
  "n \<le> length cs \<Longrightarrow>
     deal_n n h cs = (h @ rev (drop (length cs - n) cs), take (length cs - n) cs)"
proof (induction n arbitrary: h cs)
  case 0
  show ?case by simp
next
  case (Suc n)
  then have ne: "cs \<noteq> []" by auto
  then obtain xs x where cs: "cs = xs @ [x]" by (metis append_butlast_last_id)
  have n: "n \<le> length xs" using Suc.prems cs by simp
  have "deal_n (Suc n) h cs = deal_n n (h @ [x]) xs"
    using cs by (simp add: deal_def)
  also have "\<dots> = ((h @ [x]) @ rev (drop (length xs - n) xs), take (length xs - n) xs)"
    using Suc.IH [OF n] .
  also have "\<dots> = (h @ rev (drop (length cs - Suc n) cs), take (length cs - Suc n) cs)"
    using cs n by simp
  finally show ?case .
qed

lemma deal_players_ok:
  assumes "distinct ps" and "\<forall>p \<in> set ps. playerData g p \<noteq> None"
    and "length ps * n \<le> length (deck g)"
  shows "\<exists>pd'. deal_players n ps g =
            (None, g\<lparr>deck := take (length (deck g) - length ps * n) (deck g), playerData := pd'\<rparr>)
     \<and> (\<forall>p \<in> set ps. \<exists>d. pd' p = Some d \<and> length (hand d) = n \<and> set (hand d) \<subseteq> set (deck g)
            \<and> melds d = [] \<and> buys d = 3 \<and> \<not> goneDown d)
     \<and> (\<forall>q. q \<notin> set ps \<longrightarrow> pd' q = playerData g q)
     \<and> (\<Sum>p\<leftarrow>ps. mset (hand (the (pd' p))))
           + mset (take (length (deck g) - length ps * n) (deck g)) = mset (deck g)"
  using assms
proof (induction ps arbitrary: g)
  case Nil
  show ?case by (intro exI [of _ "playerData g"]) simp
next
  case (Cons p ps)
  let ?L = "length (deck g)"
  obtain d where d: "playerData g p = Some d" using Cons.prems(2) by auto
  have n: "n \<le> ?L" using Cons.prems(3) by simp
  let ?h = "rev (drop (?L - n) (deck g))"
  let ?cs = "take (?L - n) (deck g)"
  let ?d1 = "d\<lparr>hand := ?h, melds := [], buys := 3, goneDown := False\<rparr>"
  let ?g1 = "g\<lparr>deck := ?cs, playerData := (playerData g)(p \<mapsto> ?d1)\<rparr>"
  have step: "deal_players n (p # ps) g = deal_players n ps ?g1"
    using d deal_n_enough [OF n, of "[]"] by simp
  have p1: "distinct ps" using Cons.prems(1) by simp
  have p2: "\<forall>q \<in> set ps. playerData ?g1 q \<noteq> None" using Cons.prems(2) by simp
  have p3: "length ps * n \<le> length (deck ?g1)" using Cons.prems(3) n by simp
  from Cons.IH [OF p1 p2 p3] obtain pd' where pd':
    "deal_players n ps ?g1 =
       (None, ?g1\<lparr>deck := take (length (deck ?g1) - length ps * n) (deck ?g1), playerData := pd'\<rparr>)"
    "\<forall>q \<in> set ps. \<exists>d. pd' q = Some d \<and> length (hand d) = n \<and> set (hand d) \<subseteq> set (deck ?g1)
            \<and> melds d = [] \<and> buys d = 3 \<and> \<not> goneDown d"
    "\<forall>q. q \<notin> set ps \<longrightarrow> pd' q = playerData ?g1 q"
    "(\<Sum>q\<leftarrow>ps. mset (hand (the (pd' q))))
           + mset (take (length (deck ?g1) - length ps * n) (deck ?g1)) = mset (deck ?g1)"
    by blast
  have tk: "take (length (deck ?g1) - length ps * n) (deck ?g1)
      = take (?L - length (p # ps) * n) (deck g)"
  proof -
    have dk: "deck ?g1 = ?cs" by simp
    have len: "length ?cs - length ps * n = ?L - length (p # ps) * n" using n by simp
    have mn: "min (?L - length (p # ps) * n) (?L - n) = ?L - length (p # ps) * n" by simp
    have "take (length ?cs - length ps * n) ?cs = take (?L - length (p # ps) * n) (deck g)"
      unfolding len take_take mn ..
    then show ?thesis unfolding dk .
  qed
  have pd_p: "pd' p = Some ?d1" using pd'(3) Cons.prems(1) by simp
  have sub: "set ?cs \<subseteq> set (deck g)" by (rule set_take_subset)
  have res: "deal_players n (p # ps) g =
      (None, g\<lparr>deck := take (?L - length (p # ps) * n) (deck g), playerData := pd'\<rparr>)"
    using step pd'(1) tk by simp
  have hands: "\<forall>q \<in> set (p # ps). \<exists>d. pd' q = Some d \<and> length (hand d) = n
        \<and> set (hand d) \<subseteq> set (deck g) \<and> melds d = [] \<and> buys d = 3 \<and> \<not> goneDown d"
  proof
    fix q assume q: "q \<in> set (p # ps)"
    show "\<exists>d. pd' q = Some d \<and> length (hand d) = n
        \<and> set (hand d) \<subseteq> set (deck g) \<and> melds d = [] \<and> buys d = 3 \<and> \<not> goneDown d"
    proof (cases "q = p")
      case True
      have "set ?h \<subseteq> set (deck g)" using set_drop_subset [of "?L - n" "deck g"] by simp
      then show ?thesis using True pd_p n by (intro exI [of _ ?d1]) simp
    next
      case False
      then have "q \<in> set ps" using q by simp
      then obtain dq where "pd' q = Some dq" "length (hand dq) = n" "set (hand dq) \<subseteq> set (deck ?g1)"
        "melds dq = []" "buys dq = 3" "\<not> goneDown dq" using pd'(2) by blast
      then show ?thesis using sub by (intro exI [of _ dq]) auto
    qed
  qed
  have others: "\<forall>q. q \<notin> set (p # ps) \<longrightarrow> pd' q = playerData g q"
    using pd'(3) by simp
  have "mset ?h + mset ?cs = mset (deck g)"
    by (metis add.commute append_take_drop_id mset_append mset_rev)
  then have total: "(\<Sum>q\<leftarrow>p # ps. mset (hand (the (pd' q))))
           + mset (take (?L - length (p # ps) * n) (deck g)) = mset (deck g)"
    using pd'(4) pd_p tk by (simp add: add.assoc)
  show ?case using res hands others total by blast
qed

lemma sum_list_hand_lengths:
  assumes "\<forall>p \<in> set ps. length (f p) = n"
  shows "(\<Sum>p\<leftarrow>ps. length (f p)) = length ps * n"
  using assms by (induction ps) simp_all

lemma size_sum_list_mset: "size (\<Sum>p\<leftarrow>ps. mset (f p)) = (\<Sum>p\<leftarrow>ps. length (f p))"
  by (induction ps) simp_all

lemma dealRound_ok:
  assumes "distinct (players g)" and "\<forall>p \<in> set (players g). playerData g p \<noteq> None"
    and "length (players g) * (10 + currentRound g) + 1 \<le> 104"
  shows "\<exists>g'. dealRound rnd g = (None, g')
    \<and> (\<forall>p \<in> set (players g). \<exists>d. playerData g' p = Some d
          \<and> length (hand d) = 10 + currentRound g \<and> None \<notin> set (hand d))
    \<and> (\<exists>c. discardPile g' = [Some c])
    \<and> None \<notin> set (deck g')
    \<and> (\<Sum>p\<leftarrow>players g. length (hand (the (playerData g' p))))
         + length (discardPile g') + length (deck g') = 104
    \<and> (\<Sum>p\<leftarrow>players g. mset (hand (the (playerData g' p))))
         + mset (discardPile g') + mset (deck g') = mset initialize"
proof -
  let ?all = "shuffle rnd initialize"
  let ?n = "10 + currentRound g"
  let ?ps = "players g"
  have len: "length ?all = 104" by (simp add: length_initialize)
  have def: "None \<notin> set ?all" by (simp add: initialize_defined)
  have ne: "?all \<noteq> []" using len by (metis length_0_conv zero_neq_numeral)
  let ?top = "last ?all"
  let ?cs = "butlast ?all"
  let ?g0 = "g\<lparr>deck := ?cs, discardPile := [?top]\<rparr>"
  have top: "?top \<noteq> None" using def ne last_in_set by metis
  then obtain c where c: "?top = Some c" by auto
  have cs_sub: "set ?cs \<subseteq> set ?all" by (meson in_set_butlastD subsetI)
  have a1: "distinct (players ?g0)" using assms(1) by simp
  have a2: "\<forall>p \<in> set (players ?g0). playerData ?g0 p \<noteq> None" using assms(2) by simp
  have a3: "length (players ?g0) * ?n \<le> length (deck ?g0)" using assms(3) len by simp
  from deal_players_ok [OF a1 a2 a3] obtain pd' where pd':
    "deal_players ?n (players ?g0) ?g0 =
       (None, ?g0\<lparr>deck := take (length (deck ?g0) - length (players ?g0) * ?n) (deck ?g0),
                  playerData := pd'\<rparr>)"
    "\<forall>p \<in> set (players ?g0). \<exists>d. pd' p = Some d \<and> length (hand d) = ?n
        \<and> set (hand d) \<subseteq> set (deck ?g0) \<and> melds d = [] \<and> buys d = 3 \<and> \<not> goneDown d"
    "(\<Sum>p\<leftarrow>players ?g0. mset (hand (the (pd' p))))
        + mset (take (length (deck ?g0) - length (players ?g0) * ?n) (deck ?g0)) = mset (deck ?g0)"
    by blast
  let ?rest = "take (length ?cs - length ?ps * ?n) ?cs"
  let ?g1 = "?g0\<lparr>deck := ?rest, playerData := pd'\<rparr>"
  let ?g' = "?g1\<lparr>currentPlayerIndex :=
                 (if currentRound ?g1 = 1 then 0 else (currentRound ?g1 - 1) mod length (players ?g1)),
               hasDrawn := False\<rparr>"
  have res: "dealRound rnd g = (None, ?g')"
    using pd'(1) ne by (simp add: dealRound_def deal_nonempty)
  have hands: "\<forall>p \<in> set ?ps. \<exists>d. playerData ?g' p = Some d
          \<and> length (hand d) = ?n \<and> None \<notin> set (hand d)"
  proof
    fix p assume "p \<in> set ?ps"
    then obtain d where d: "pd' p = Some d" "length (hand d) = ?n" "set (hand d) \<subseteq> set ?cs"
      using pd'(2) by auto
    then have "None \<notin> set (hand d)" using cs_sub def by blast
    then show "\<exists>d. playerData ?g' p = Some d \<and> length (hand d) = ?n \<and> None \<notin> set (hand d)"
      using d by simp
  qed
  have rest_def: "None \<notin> set (deck ?g')"
    using cs_sub def set_take_subset [of "length ?cs - length ?ps * ?n" ?cs] by auto
  have msets: "(\<Sum>p\<leftarrow>?ps. mset (hand (the (playerData ?g' p))))
         + mset (discardPile ?g') + mset (deck ?g') = mset initialize"
  proof -
    have "(\<Sum>p\<leftarrow>?ps. mset (hand (the (pd' p)))) + mset ?rest = mset ?cs"
      using pd'(3) by simp
    moreover have "mset ?cs + {#?top#} = mset ?all"
      using ne by (metis append_butlast_last_id mset.simps(1) mset.simps(2) mset_append add_mset_add_single union_mset_add_mset_right add.right_neutral)
    ultimately have "(\<Sum>p\<leftarrow>?ps. mset (hand (the (pd' p)))) + {#?top#} + mset ?rest = mset ?all"
      by (simp add: ac_simps)
    then show ?thesis by simp
  qed
  have "size ((\<Sum>p\<leftarrow>?ps. mset (hand (the (playerData ?g' p))))
         + mset (discardPile ?g') + mset (deck ?g')) = size (mset initialize)"
    using msets by simp
  then have lens: "(\<Sum>p\<leftarrow>?ps. length (hand (the (playerData ?g' p))))
         + length (discardPile ?g') + length (deck ?g') = 104"
    by (simp add: size_sum_list_mset length_initialize)
  have disc: "\<exists>c. discardPile ?g' = [Some c]" using c by simp
  show ?thesis
    using res hands disc rest_def lens msets by blast
qed

lemma reset_players_p3_hands:
  "playerHands (reset_players_p3 ps g) q = (if q \<in> set ps then Some [] else playerHands g q)"
  by (induction ps arbitrary: g) auto

lemma reset_players_p3_frame [simp]:
  "deck_p3 (reset_players_p3 ps g) = deck_p3 g"
  "discardPile_p3 (reset_players_p3 ps g) = discardPile_p3 g"
  "players_p3 (reset_players_p3 ps g) = players_p3 g"
  "currentRound_p3 (reset_players_p3 ps g) = currentRound_p3 g"
  "playerScores (reset_players_p3 ps g) = playerScores g"
  by (induction ps arbitrary: g) auto

lemma deal_one_each_p3_ok:
  assumes "distinct ps" and "\<forall>p \<in> set ps. playerHands g p \<noteq> None"
    and "length ps \<le> length (deck_p3 g)"
  shows "\<exists>hs'. deal_one_each_p3 ps g =
            (None, g\<lparr>deck_p3 := take (length (deck_p3 g) - length ps) (deck_p3 g), playerHands := hs'\<rparr>)
     \<and> (\<forall>p \<in> set ps. \<exists>h c. playerHands g p = Some h \<and> hs' p = Some (h @ [c]) \<and> c \<in> set (deck_p3 g))
     \<and> (\<forall>q. q \<notin> set ps \<longrightarrow> hs' q = playerHands g q)
     \<and> (\<Sum>p\<leftarrow>ps. mset (the (hs' p))) + mset (take (length (deck_p3 g) - length ps) (deck_p3 g))
         = (\<Sum>p\<leftarrow>ps. mset (the (playerHands g p))) + mset (deck_p3 g)"
  using assms
proof (induction ps arbitrary: g)
  case Nil
  show ?case by (intro exI [of _ "playerHands g"]) simp
next
  case (Cons p ps)
  let ?dk = "deck_p3 g"
  obtain h where h: "playerHands g p = Some h" using Cons.prems(2) by auto
  have ne: "?dk \<noteq> []" using Cons.prems(3) by auto
  let ?c = "last ?dk"
  let ?cs = "butlast ?dk"
  let ?g1 = "g\<lparr>deck_p3 := ?cs, playerHands := (playerHands g)(p \<mapsto> h @ [?c])\<rparr>"
  have step: "deal_one_each_p3 (p # ps) g = deal_one_each_p3 ps ?g1"
    using h ne by (simp add: deal_nonempty)
  have p1: "distinct ps" using Cons.prems(1) by simp
  have p2: "\<forall>q \<in> set ps. playerHands ?g1 q \<noteq> None" using Cons.prems(2) by simp
  have p3: "length ps \<le> length (deck_p3 ?g1)" using Cons.prems(3) by simp
  from Cons.IH [OF p1 p2 p3] obtain hs' where hs':
    "deal_one_each_p3 ps ?g1 =
       (None, ?g1\<lparr>deck_p3 := take (length (deck_p3 ?g1) - length ps) (deck_p3 ?g1), playerHands := hs'\<rparr>)"
    "\<forall>q \<in> set ps. \<exists>h c. playerHands ?g1 q = Some h \<and> hs' q = Some (h @ [c]) \<and> c \<in> set (deck_p3 ?g1)"
    "\<forall>q. q \<notin> set ps \<longrightarrow> hs' q = playerHands ?g1 q"
    "(\<Sum>q\<leftarrow>ps. mset (the (hs' q))) + mset (take (length (deck_p3 ?g1) - length ps) (deck_p3 ?g1))
         = (\<Sum>q\<leftarrow>ps. mset (the (playerHands ?g1 q))) + mset (deck_p3 ?g1)"
    by blast
  have tk: "take (length (deck_p3 ?g1) - length ps) (deck_p3 ?g1)
      = take (length ?dk - length (p # ps)) ?dk"
    by (simp add: butlast_conv_take min_def)
  have pnot: "p \<notin> set ps" using Cons.prems(1) by simp
  have hs_p: "hs' p = Some (h @ [?c])" using hs'(3) pnot by simp
  have same: "(\<Sum>q\<leftarrow>ps. mset (the (playerHands ?g1 q))) = (\<Sum>q\<leftarrow>ps. mset (the (playerHands g q)))"
    using pnot by (intro arg_cong [where f = sum_list] map_cong) auto
  have res: "deal_one_each_p3 (p # ps) g =
      (None, g\<lparr>deck_p3 := take (length ?dk - length (p # ps)) ?dk, playerHands := hs'\<rparr>)"
    using step hs'(1) tk by simp
  have grow: "\<forall>q \<in> set (p # ps). \<exists>h c. playerHands g q = Some h \<and> hs' q = Some (h @ [c]) \<and> c \<in> set ?dk"
  proof
    fix q assume q: "q \<in> set (p # ps)"
    show "\<exists>h c. playerHands g q = Some h \<and> hs' q = Some (h @ [c]) \<and> c \<in> set ?dk"
    proof (cases "q = p")
      case True
      then show ?thesis using h hs_p ne by auto
    next
      case False
      then have "q \<in> set ps" using q by simp
      then obtain hq c where "playerHands ?g1 q = Some hq" "hs' q = Some (hq @ [c])" "c \<in> set ?cs"
        using hs'(2) by fastforce
      then show ?thesis using False by (auto dest: in_set_butlastD)
    qed
  qed
  have others: "\<forall>q. q \<notin> set (p # ps) \<longrightarrow> hs' q = playerHands g q" using hs'(3) by simp
  have "mset ?cs + {#?c#} = mset ?dk"
    using ne by (metis append_butlast_last_id mset.simps(1) mset.simps(2) mset_append add_mset_add_single union_mset_add_mset_right add.right_neutral)
  then have total: "(\<Sum>q\<leftarrow>p # ps. mset (the (hs' q))) + mset (take (length ?dk - length (p # ps)) ?dk)
         = (\<Sum>q\<leftarrow>p # ps. mset (the (playerHands g q))) + mset ?dk"
    using hs'(4) hs_p h same tk by (simp add: ac_simps)
  show ?case using res grow others total by blast
qed

lemma deal_rounds_p3_ok:
  assumes "distinct (players_p3 g)" and "\<forall>p \<in> set (players_p3 g). playerHands g p \<noteq> None"
    and "n * length (players_p3 g) \<le> length (deck_p3 g)"
  shows "\<exists>hs'. deal_rounds_p3 n g =
            (None, g\<lparr>deck_p3 := take (length (deck_p3 g) - n * length (players_p3 g)) (deck_p3 g),
                     playerHands := hs'\<rparr>)
     \<and> (\<forall>p \<in> set (players_p3 g). \<exists>h h2. playerHands g p = Some h \<and> hs' p = Some (h @ h2)
            \<and> length h2 = n \<and> set h2 \<subseteq> set (deck_p3 g))
     \<and> (\<Sum>p\<leftarrow>players_p3 g. mset (the (hs' p)))
           + mset (take (length (deck_p3 g) - n * length (players_p3 g)) (deck_p3 g))
         = (\<Sum>p\<leftarrow>players_p3 g. mset (the (playerHands g p))) + mset (deck_p3 g)"
  using assms
proof (induction n arbitrary: g)
  case 0
  then show ?case by (intro exI [of _ "playerHands g"]) auto
next
  case (Suc n)
  let ?ps = "players_p3 g"
  let ?dk = "deck_p3 g"
  let ?k = "length ?ps"
  have k: "?k \<le> length ?dk" using Suc.prems(3) by simp
  from deal_one_each_p3_ok [OF Suc.prems(1) Suc.prems(2) k] obtain hs1 where hs1:
    "deal_one_each_p3 ?ps g = (None, g\<lparr>deck_p3 := take (length ?dk - ?k) ?dk, playerHands := hs1\<rparr>)"
    "\<forall>p \<in> set ?ps. \<exists>h c. playerHands g p = Some h \<and> hs1 p = Some (h @ [c]) \<and> c \<in> set ?dk"
    "(\<Sum>p\<leftarrow>?ps. mset (the (hs1 p))) + mset (take (length ?dk - ?k) ?dk)
         = (\<Sum>p\<leftarrow>?ps. mset (the (playerHands g p))) + mset ?dk"
    by blast
  let ?g1 = "g\<lparr>deck_p3 := take (length ?dk - ?k) ?dk, playerHands := hs1\<rparr>"
  have step: "deal_rounds_p3 (Suc n) g = deal_rounds_p3 n ?g1" using hs1(1) by simp
  have q1: "distinct (players_p3 ?g1)" using Suc.prems(1) by simp
  have q2: "\<forall>p \<in> set (players_p3 ?g1). playerHands ?g1 p \<noteq> None" using hs1(2) by fastforce
  have q3: "n * length (players_p3 ?g1) \<le> length (deck_p3 ?g1)" using Suc.prems(3) by simp
  from Suc.IH [OF q1 q2 q3] obtain hs2 where hs2:
    "deal_rounds_p3 n ?g1 =
       (None, ?g1\<lparr>deck_p3 := take (length (deck_p3 ?g1) - n * length (players_p3 ?g1)) (deck_p3 ?g1),
                   playerHands := hs2\<rparr>)"
    "\<forall>p \<in> set (players_p3 ?g1). \<exists>h h2. playerHands ?g1 p = Some h \<and> hs2 p = Some (h @ h2)
            \<and> length h2 = n \<and> set h2 \<subseteq> set (deck_p3 ?g1)"
    "(\<Sum>p\<leftarrow>players_p3 ?g1. mset (the (hs2 p)))
           + mset (take (length (deck_p3 ?g1) - n * length (players_p3 ?g1)) (deck_p3 ?g1))
         = (\<Sum>p\<leftarrow>players_p3 ?g1. mset (the (playerHands ?g1 p))) + mset (deck_p3 ?g1)"
    by blast
  have tk: "take (length (deck_p3 ?g1) - n * length (players_p3 ?g1)) (deck_p3 ?g1)
      = take (length ?dk - Suc n * ?k) ?dk"
  proof -
    have dk: "deck_p3 ?g1 = take (length ?dk - ?k) ?dk" "players_p3 ?g1 = ?ps" by simp_all
    have len: "length (take (length ?dk - ?k) ?dk) - n * ?k = length ?dk - Suc n * ?k" by simp
    have mn: "min (length ?dk - Suc n * ?k) (length ?dk - ?k) = length ?dk - Suc n * ?k" by simp
    have "take (length (take (length ?dk - ?k) ?dk) - n * ?k) (take (length ?dk - ?k) ?dk)
        = take (length ?dk - Suc n * ?k) ?dk"
      unfolding len take_take mn ..
    then show ?thesis unfolding dk .
  qed
  have res: "deal_rounds_p3 (Suc n) g =
      (None, g\<lparr>deck_p3 := take (length ?dk - Suc n * ?k) ?dk, playerHands := hs2\<rparr>)"
    using step hs2(1) tk by simp
  have grow: "\<forall>p \<in> set ?ps. \<exists>h h2. playerHands g p = Some h \<and> hs2 p = Some (h @ h2)
            \<and> length h2 = Suc n \<and> set h2 \<subseteq> set ?dk"
  proof
    fix p assume p: "p \<in> set ?ps"
    then obtain h c where hc: "playerHands g p = Some h" "hs1 p = Some (h @ [c])" "c \<in> set ?dk"
      using hs1(2) by blast
    obtain h2 where h2: "hs2 p = Some ((h @ [c]) @ h2)" "length h2 = n"
        "set h2 \<subseteq> set (take (length ?dk - ?k) ?dk)"
      using hs2(2) p hc by fastforce
    have "set h2 \<subseteq> set ?dk" using h2(3) set_take_subset by fast
    then show "\<exists>h h2. playerHands g p = Some h \<and> hs2 p = Some (h @ h2)
            \<and> length h2 = Suc n \<and> set h2 \<subseteq> set ?dk"
      using hc h2 by (intro exI [of _ h] exI [of _ "c # h2"]) simp
  qed
  have total: "(\<Sum>p\<leftarrow>?ps. mset (the (hs2 p))) + mset (take (length ?dk - Suc n * ?k) ?dk)
         = (\<Sum>p\<leftarrow>?ps. mset (the (playerHands g p))) + mset ?dk"
    using hs2(3) hs1(3) tk by simp
  show ?case using res grow total by blast
qed

lemma dealRound_p3_ok:
  assumes "distinct (players_p3 g)"
    and "length (players_p3 g) * (10 + currentRound_p3 g) + 1 \<le> 104"
  shows "\<exists>g'. dealRound_p3 rnd g = (None, g')
    \<and> (\<forall>p \<in> set (players_p3 g). \<exists>h. playerHands g' p = Some h
          \<and> length h = 10 + currentRound_p3 g \<and> None \<notin> set h)
    \<and> (\<exists>c. discardPile_p3 g' = [Some c])
    \<and> None \<notin> set (deck_p3 g')
    \<and> (\<Sum>p\<leftarrow>players_p3 g. length (the (playerHands g' p)))
         + length (discardPile_p3 g') + length (deck_p3 g') = 104
    \<and> (\<Sum>p\<leftarrow>players_p3 g. mset (the (playerHands g' p)))
         + mset (discardPile_p3 g') + mset (deck_p3 g') = mset initialize"
proof -
  let ?all = "shuffle rnd initialize"
  let ?n = "10 + currentRound_p3 g"
  let ?ps = "players_p3 g"
  let ?g0 = "reset_players_p3 ?ps (g\<lparr>deck_p3 := ?all, discardPile_p3 := []\<rparr>)"
  have len: "length ?all = 104" by (simp add: length_initialize)
  have def: "None \<notin> set ?all" by (simp add: initialize_defined)
  have a1: "distinct (players_p3 ?g0)" using assms(1) by simp
  have a2: "\<forall>p \<in> set (players_p3 ?g0). playerHands ?g0 p \<noteq> None"
    by (simp add: reset_players_p3_hands)
  have a3: "?n * length (players_p3 ?g0) \<le> length (deck_p3 ?g0)"
    using assms(2) len by (simp add: mult.commute)
  from deal_rounds_p3_ok [OF a1 a2 a3] obtain hs' where hs':
    "deal_rounds_p3 ?n ?g0 =
       (None, ?g0\<lparr>deck_p3 := take (length (deck_p3 ?g0) - ?n * length (players_p3 ?g0)) (deck_p3 ?g0),
                  playerHands := hs'\<rparr>)"
    "\<forall>p \<in> set (players_p3 ?g0). \<exists>h h2. playerHands ?g0 p = Some h \<and> hs' p = Some (h @ h2)
            \<and> length h2 = ?n \<and> set h2 \<subseteq> set (deck_p3 ?g0)"
    "(\<Sum>p\<leftarrow>players_p3 ?g0. mset (the (hs' p)))
           + mset (take (length (deck_p3 ?g0) - ?n * length (players_p3 ?g0)) (deck_p3 ?g0))
         = (\<Sum>p\<leftarrow>players_p3 ?g0. mset (the (playerHands ?g0 p))) + mset (deck_p3 ?g0)"
    by blast
  let ?rest = "take (104 - ?n * length ?ps) ?all"
  let ?g1 = "?g0\<lparr>deck_p3 := ?rest, playerHands := hs'\<rparr>"
  have g1: "deal_rounds_p3 ?n ?g0 = (None, ?g1)" using hs'(1) len by simp
  have rest_len: "length ?rest = 104 - ?n * length ?ps" using len by simp
  have pos: "0 < 104 - ?n * length ?ps" using assms(2) by (simp add: mult.commute)
  have rest_ne: "?rest \<noteq> []"
  proof
    assume e: "?rest = []"
    have "length ?rest = 0" by (simp only: e list.size(3))
    then show False using rest_len pos by linarith
  qed
  let ?c = "last ?rest"
  let ?g' = "?g1\<lparr>deck_p3 := butlast ?rest, discardPile_p3 := discardPile_p3 ?g1 @ [?c],
               currentPlayerIndex_p3 := (currentRound_p3 ?g1 - 1) mod length (players_p3 ?g1),
               hasDrawn_p3 := False\<rparr>"
  have res: "dealRound_p3 rnd g = (None, ?g')"
    using g1 rest_ne by (simp add: dealRound_p3_def deal_nonempty)
  have rest_sub: "set ?rest \<subseteq> set ?all" by (rule set_take_subset)
  have c_def: "?c \<noteq> None" using rest_ne rest_sub def last_in_set by (metis subsetD)
  then obtain c where c: "?c = Some c" by auto
  have hands: "\<forall>p \<in> set ?ps. \<exists>h. playerHands ?g' p = Some h \<and> length h = ?n \<and> None \<notin> set h"
  proof
    fix p assume p: "p \<in> set ?ps"
    then obtain h h2 where h: "playerHands ?g0 p = Some h" "hs' p = Some (h @ h2)"
        "length h2 = ?n" "set h2 \<subseteq> set ?all"
      using hs'(2) by fastforce
    have "h = []" using h(1) p by (simp add: reset_players_p3_hands)
    then show "\<exists>h. playerHands ?g' p = Some h \<and> length h = ?n \<and> None \<notin> set h"
      using h def by auto
  qed
  have zero: "(\<Sum>p\<leftarrow>?ps. mset (the (playerHands ?g0 p))) = {#}"
  proof -
    have z: "(\<Sum>p\<leftarrow>qs. {#}) = ({#} :: slot multiset)" for qs :: "string list"
      by (induction qs) simp_all
    have "map (\<lambda>p. mset (the (playerHands ?g0 p))) ?ps = map (\<lambda>p. {#}) ?ps"
      by (intro map_cong) (simp_all add: reset_players_p3_hands)
    then show ?thesis using z [of ?ps] by (simp only:)
  qed
  define H where "H = (\<Sum>p\<leftarrow>?ps. mset (the (hs' p)))"
  have e1: "H + mset ?rest = mset ?all"
    using hs'(3) zero len by (simp add: H_def)
  have e2: "mset (butlast ?rest) + {#?c#} = mset ?rest"
    using rest_ne by (metis append_butlast_last_id mset.simps(1) mset.simps(2) mset_append add_mset_add_single union_mset_add_mset_right add.right_neutral)
  have "H + mset [?c] + mset (butlast ?rest) = H + (mset (butlast ?rest) + {#?c#})"
    by simp
  also have "\<dots> = mset ?all" unfolding e2 by (rule e1)
  finally have e3: "H + mset [?c] + mset (butlast ?rest) = mset ?all" .
  have f1: "playerHands ?g' = hs'" by simp
  have f2: "discardPile_p3 ?g' = [?c]" by simp
  have f3: "deck_p3 ?g' = butlast ?rest" by simp
  have msets: "(\<Sum>p\<leftarrow>?ps. mset (the (playerHands ?g' p)))
         + mset (discardPile_p3 ?g') + mset (deck_p3 ?g') = mset initialize"
    unfolding f1 f2 f3 using e3 by (simp only: H_def mset_shuffle)
  have "size ((\<Sum>p\<leftarrow>?ps. mset (the (playerHands ?g' p)))
         + mset (discardPile_p3 ?g') + mset (deck_p3 ?g')) = size (mset initialize)"
    using msets by simp
  then have lens: "(\<Sum>p\<leftarrow>?ps. length (the (playerHands ?g' p)))
         + length (discardPile_p3 ?g') + length (deck_p3 ?g') = 104"
    using size_sum_list_mset [of "\<lambda>p. the (playerHands ?g' p)" ?ps]
    by (simp add: length_initialize)
  have disc: "\<exists>c. discardPile_p3 ?g' = [Some c]" using c by simp
  have rest_def: "None \<notin> set (deck_p3 ?g')"
    using rest_sub def by (auto dest: in_set_butlastD)
  show ?thesis
    using res hands disc rest_def lens msets by blast
qed

text \<open>
  Claim C7 as stated fails for the largest lobby of server.js.  With the host and six AI
  players round 7 asks for 7 times 17 cards after the starter; the stock runs out, and
  the last player's hand is one card followed by 16 times \<^verbatim>\<open>undefined\<close>.
\<close>

theorem dealRound_full_table_round_7:
  "length (players full_table) = 7 \<and> distinct (players full_table) \<and> currentRound full_table = 7
   \<and> fst (dealRound (\<lambda>i. i) full_table) = None
   \<and> map_option hand (playerData (snd (dealRound (\<lambda>i. i) full_table)) ''Honey Lemon6'')
        = Some (Some (Card hearts A) # replicate 16 None)
   \<and> deck (snd (dealRound (\<lambda>i. i) full_table)) = []"
  by code_simp

text \<open>
  Claim C7, amended.  For every roster of distinct players (each with an entry in
  \<^verbatim>\<open>playerData\<close>) and every round with players times (10 + round) plus 1 at most 104,
  \<^verbatim>\<open>dealRound\<close> gives each player exactly 10 + round cards, a discard pile of one card and
  a stock such that hands, discard pile and stock are the 104 cards of the two decks.
  This holds for the dealing order of server.js and for that of part_003.
\<close>

theorem dealRound_deals_two_decks:
  "(distinct (players g) \<and> (\<forall>p \<in> set (players g). playerData g p \<noteq> None)
      \<and> length (players g) * (10 + currentRound g) + 1 \<le> 104 \<longrightarrow>
    (\<exists>g'. dealRound rnd g = (None, g')
      \<and> (\<forall>p \<in> set (players g). \<exists>d. playerData g' p = Some d
            \<and> length (hand d) = 10 + currentRound g \<and> None \<notin> set (hand d))
      \<and> (\<exists>c. discardPile g' = [Some c])
      \<and> None \<notin> set (deck g')
      \<and> (\<Sum>p\<leftarrow>players g. length (hand (the (playerData g' p))))
           + length (discardPile g') + length (deck g') = 104
      \<and> (\<Sum>p\<leftarrow>players g. mset (hand (the (playerData g' p))))
           + mset (discardPile g') + mset (deck g') = mset initialize))
   \<and> (distinct (players_p3 g3) \<and> length (players_p3 g3) * (10 + currentRound_p3 g3) + 1 \<le> 104 \<longrightarrow>
    (\<exists>g'. dealRound_p3 rnd g3 = (None, g')
      \<and> (\<forall>p \<in> set (players_p3 g3). \<exists>h. playerHands g' p = Some h
            \<and> length h = 10 + currentRound_p3 g3 \<and> None \<notin> set h)
      \<and> (\<exists>c. discardPile_p3 g' = [Some c])
      \<and> None \<notin> set (deck_p3 g')
      \<and> (\<Sum>p\<leftarrow>players_p3 g3. length (the (playerHands g' p)))
           + length (discardPile_p3 g') + length (deck_p3 g') = 104
      \<and> (\<Sum>p\<leftarrow>players_p3 g3. mset (the (playerHands g' p)))
           + mset (discardPile_p3 g') + mset (deck_p3 g') = mset initialize))"
  using dealRound_ok [of g rnd] dealRound_p3_ok [of g3 rnd] by blast

theorem dealRound_deals_two_decks_witness:
  "\<exists>g'. dealRound (\<lambda>i. 0) last_card_game = (None, g')
      \<and> (\<exists>c. discardPile g' = [Some c])
      \<and> (\<Sum>p\<leftarrow>[''Ann'', ''Bob'']. length (hand (the (playerData g' p))))
           + length (discardPile g') + length (deck g') = 104"
proof -
  have 1: "distinct (players last_card_game)" by (simp add: last_card_game_def)
  have 2: "\<forall>p \<in> set (players last_card_game). playerData last_card_game p \<noteq> None"
    by (simp add: last_card_game_def)
  have 3: "length (players last_card_game) * (10 + currentRound last_card_game) + 1 \<le> 104"
    by (simp add: last_card_game_def)
  have ps: "players last_card_game = [''Ann'', ''Bob'']" by (simp add: last_card_game_def)
  from dealRound_deals_two_decks [of last_card_game "\<lambda>i. 0", THEN conjunct1, rule_format, OF conjI [OF 1 conjI [OF 2 3]]]
  show ?thesis unfolding ps by blast
qed

section \<open>Where the cards are\<close>

text \<open>
  Claim C2.  Ann and Bob are dealt round 1 (with a shuffle that leaves the order of the
  new deck), and the cards in stock, discard pile and hands are the two decks.  Ann,
  whose turn it is, melds the index list 0, 0, 0 as a set: \<^verbatim>\<open>makeMeld\<close> of server.js
  reads her first card three times, accepts the three equal ranks, and removes her first
  three cards.  Afterwards the queen of spades is there four times where the two decks
  have two, and one of the two jacks of spades is gone.
\<close>

theorem makeMeld_repeated_index_duplicates:
  "fst (dealRound (\<lambda>i. i) two_player_lobby) = None
   \<and> mset (all_cards (snd (dealRound (\<lambda>i. i) two_player_lobby))) = mset initialize
   \<and> getCurrentPlayer (snd (dealRound (\<lambda>i. i) two_player_lobby)) = Some ''Ann''
   \<and> map_option (take 3 \<circ> hand) (playerData (snd (dealRound (\<lambda>i. i) two_player_lobby)) ''Ann'')
        = Some [Some (Card spades Q), Some (Card spades J), Some (Card spades R10)]
   \<and> fst (makeMeld (\<lambda>i. i) ''Ann'' [0, 0, 0] ''set'' (snd (dealRound (\<lambda>i. i) two_player_lobby)))
        = Success None None
   \<and> map_option melds (playerData (snd (makeMeld (\<lambda>i. i) ''Ann'' [0, 0, 0] ''set''
          (snd (dealRound (\<lambda>i. i) two_player_lobby)))) ''Ann'')
        = Some [\<lparr>type = ''set'', cards = [Some (Card spades Q), Some (Card spades Q), Some (Card spades Q)]\<rparr>]
   \<and> count_list (all_cards (snd (dealRound (\<lambda>i. i) two_player_lobby))) (Some (Card spades Q)) = 2
   \<and> count_list (all_cards (snd (makeMeld (\<lambda>i. i) ''Ann'' [0, 0, 0] ''set''
          (snd (dealRound (\<lambda>i. i) two_player_lobby))))) (Some (Card spades Q)) = 4
   \<and> count_list (all_cards (snd (makeMeld (\<lambda>i. i) ''Ann'' [0, 0, 0] ''set''
          (snd (dealRound (\<lambda>i. i) two_player_lobby))))) (Some (Card spades J)) = 1"
  by code_simp

theorem makeMeld_repeated_index_duplicates_witness:
  "count_list (all_cards (snd (makeMeld (\<lambda>i. i) ''Ann'' [0, 0, 0] ''set''
          (snd (dealRound (\<lambda>i. i) two_player_lobby))))) (Some (Card spades Q)) = 4
   \<and> count_list (all_cards (snd (makeMeld (\<lambda>i. i) ''Ann'' [0, 0, 0] ''set''
          (snd (dealRound (\<lambda>i. i) two_player_lobby))))) (Some (Card spades J)) = 1"
  using makeMeld_repeated_index_duplicates by blast

section \<open>Going out by a discard\<close>

lemma validate_requirements_hands_p3 [simp]:
  "validatePlayerMeetsRoundRequirements p (g\<lparr>playerHands := hs, discardPile_p3 := dp\<rparr>)
     = validatePlayerMeetsRoundRequirements p g"
  by (simp add: validatePlayerMeetsRoundRequirements_def cong: option.case_cong)

lemma melds_of_round_hands_p3 [simp]:
  "melds_of_round (g\<lparr>playerHands := hs, discardPile_p3 := dp\<rparr>) = melds_of_round g"
  by (simp add: melds_of_round_def)

text \<open>In part_003 a discard of the last card without the round's melds is answered
  with a failure and leaves the whole state as it was.\<close>

lemma discardCard_p3_rolls_back:
  assumes "getCurrentPlayer_p3 g = Some p" and "hasDrawn_p3 g"
    and "playerHands g p = Some [c]"
    and "validatePlayerMeetsRoundRequirements p g = Some False"
  shows "discardCard_p3 rnd p 0 g = (Failure (''Cannot go out! You need: '' @ melds_of_round g), g)"
proof -
  have "(playerHands g)(p \<mapsto> [c]) = playerHands g"
    using assms(3) by (rule map_upd_triv)
  then show ?thesis
    using assms by (simp add: discardCard_p3_def splice1_def Let_def)
qed

text \<open>
  Claim C1, on server.js.  Ann has drawn, holds one card and has one set where round 1
  asks for two.  Her discard is accepted: the answer is a success, her hand is empty,
  the card lies on the discard pile, the round goes on and the buy window opens.
\<close>

theorem discardCard_accepts_unmet_go_out:
  "getCurrentPlayer last_card_game = Some ''Ann'' \<and> hasDrawn last_card_game
   \<and> map_option hand (playerData last_card_game ''Ann'') = Some [Some (Card hearts K)]
   \<and> map_option (count_sets (ROUND_REQUIREMENTS ! 0) \<circ> melds) (playerData last_card_game ''Ann'') = Some 1
   \<and> sets (ROUND_REQUIREMENTS ! 0) = 2
   \<and> fst (discardCard (\<lambda>i. 0) ''Ann'' 0 last_card_game) = Success (Some (Some (Card hearts K))) None
   \<and> map_option hand (playerData (snd (discardCard (\<lambda>i. 0) ''Ann'' 0 last_card_game)) ''Ann'') = Some []
   \<and> discardPile (snd (discardCard (\<lambda>i. 0) ''Ann'' 0 last_card_game))
       = [Some (Card spades R2), Some (Card hearts K)]
   \<and> currentRound (snd (discardCard (\<lambda>i. 0) ''Ann'' 0 last_card_game)) = 1
   \<and> active (buyPhase (snd (discardCard (\<lambda>i. 0) ''Ann'' 0 last_card_game)))"
  by (simp add: discardCard_def last_card_game_def getCurrentPlayer_def splice1_def
      startBuyPhase_def endBuyPhase_def nextTurn_def no_buy_phase_def Let_def bobs_data_def
      anns_melds_def count_sets_def ROUND_REQUIREMENTS_def)

theorem discardCard_accepts_unmet_go_out_witness:
  "fst (discardCard (\<lambda>i. 0) ''Ann'' 0 last_card_game) = Success (Some (Some (Card hearts K))) None
   \<and> discardPile (snd (discardCard (\<lambda>i. 0) ''Ann'' 0 last_card_game))
       = [Some (Card spades R2), Some (Card hearts K)]"
  using discardCard_accepts_unmet_go_out by blast

section \<open>Going out by a meld\<close>

text \<open>
  Claim C4.  Ann holds three sevens and has two runs where round 1 asks for two sets.
  Her set of the three sevens is valid and empties her hand.  part_003 answers with a
  failure and reverts nothing: the hand stays empty and the new set stays in her melds.
  server.js answers with a success, and the round goes on with her hand empty.
\<close>

theorem makeMeld_keeps_unmet_go_out:
  "getCurrentPlayer_p3 last_meld_game_p3 = Some ''Ann''
   \<and> playerHands last_meld_game_p3 ''Ann'' = Some three_sevens
   \<and> playerMelds last_meld_game_p3 ''Ann'' = Some two_runs
   \<and> validateMeld three_sevens ''set'' = Inr True
   \<and> fst (makeMeld_p3 (\<lambda>i. 0) ''Ann'' [0, 1, 2] ''set'' last_meld_game_p3)
       = Failure ''You've melded all cards but don't meet round requirements: 2 Sets of 3''
   \<and> playerHands (snd (makeMeld_p3 (\<lambda>i. 0) ''Ann'' [0, 1, 2] ''set'' last_meld_game_p3)) ''Ann''
       = Some []
   \<and> playerMelds (snd (makeMeld_p3 (\<lambda>i. 0) ''Ann'' [0, 1, 2] ''set'' last_meld_game_p3)) ''Ann''
       = Some (two_runs @ [\<lparr>type = ''set'', cards = three_sevens\<rparr>])
   \<and> fst (makeMeld (\<lambda>i. 0) ''Ann'' [0, 1, 2] ''set'' last_meld_game) = Success None None
   \<and> map_option hand (playerData (snd (makeMeld (\<lambda>i. 0) ''Ann'' [0, 1, 2] ''set'' last_meld_game)) ''Ann'')
       = Some []
   \<and> map_option melds (playerData (snd (makeMeld (\<lambda>i. 0) ''Ann'' [0, 1, 2] ''set'' last_meld_game)) ''Ann'')
       = Some (two_runs @ [\<lparr>type = ''set'', cards = three_sevens\<rparr>])
   \<and> currentRound (snd (makeMeld (\<lambda>i. 0) ''Ann'' [0, 1, 2] ''set'' last_meld_game)) = 1"
  by (simp add: makeMeld_p3_def makeMeld_def last_meld_game_p3_def last_meld_game_def
      getCurrentPlayer_p3_def getCurrentPlayer_def three_sevens_def two_runs_def bobs_data_def
      validateMeld_p3_def validateMeld_def at_index_def splice1_def Let_def
      validatePlayerMeetsRoundRequirements_def requirement_of_def ROUND_REQUIREMENTS_def
      melds_of_round_def count_sets_def count_runs_def no_buy_phase_def)

theorem makeMeld_keeps_unmet_go_out_witness:
  "playerHands (snd (makeMeld_p3 (\<lambda>i. 0) ''Ann'' [0, 1, 2] ''set'' last_meld_game_p3)) ''Ann''
       = Some []
   \<and> fst (makeMeld (\<lambda>i. 0) ''Ann'' [0, 1, 2] ''set'' last_meld_game) = Success None None"
  using makeMeld_keeps_unmet_go_out by blast

section \<open>Drawing from an empty stock\<close>

text \<open>What \<^verbatim>\<open>drawCard\<close> does right: part_003 leaves the state alone when nothing can be
  recycled, and both revisions recycle a discard pile of two or more cards.\<close>

lemma drawCard_p3_nothing_to_recycle:
  assumes "getCurrentPlayer_p3 g = Some p" and "\<not> hasDrawn_p3 g"
    and "deck_p3 g = []" and "length (discardPile_p3 g) \<le> 1"
  shows "drawCard_p3 rnd p g = (Failure ''No cards left to draw'', g)"
  using assms by (simp add: drawCard_p3_def)

lemma recycled_stock:
  assumes "1 < length pile"
  shows "butlast pile \<noteq> []"
    and "deal (shuffle rnd (butlast pile)) =
           (last (shuffle rnd (butlast pile)), butlast (shuffle rnd (butlast pile)))"
    and "add_mset (last (shuffle rnd (butlast pile))) (mset (butlast (shuffle rnd (butlast pile))))
           = mset (butlast pile)"
proof -
  show ne: "butlast pile \<noteq> []" using assms by (cases pile rule: rev_cases) auto
  then have ne': "shuffle rnd (butlast pile) \<noteq> []"
    by (metis length_0_conv length_shuffle)
  then show "deal (shuffle rnd (butlast pile)) =
           (last (shuffle rnd (butlast pile)), butlast (shuffle rnd (butlast pile)))"
    by (rule deal_nonempty)
  have "mset (butlast (shuffle rnd (butlast pile)) @ [last (shuffle rnd (butlast pile))])
      = mset (shuffle rnd (butlast pile))"
    using ne' by simp
  then show "add_mset (last (shuffle rnd (butlast pile))) (mset (butlast (shuffle rnd (butlast pile))))
           = mset (butlast pile)"
    by simp
qed

lemma drawCard_p3_recycles:
  assumes "getCurrentPlayer_p3 g = Some p" and "\<not> hasDrawn_p3 g"
    and "deck_p3 g = []" and "1 < length (discardPile_p3 g)"
    and "playerHands g p = Some h"
  shows "\<exists>c g'. drawCard_p3 rnd p g = (Success (Some c) None, g')
     \<and> discardPile_p3 g' = [last (discardPile_p3 g)]
     \<and> playerHands g' p = Some (h @ [c])
     \<and> add_mset c (mset (deck_p3 g')) = mset (butlast (discardPile_p3 g))"
proof -
  let ?pile = "discardPile_p3 g"
  have ne: "?pile \<noteq> []" using assms(4) by auto
  note r = recycled_stock [OF assms(4)]
  have "drawCard_p3 rnd p g =
      (Success (Some (last (shuffle rnd (butlast ?pile)))) None,
       g\<lparr>deck_p3 := butlast (shuffle rnd (butlast ?pile)), discardPile_p3 := [last ?pile],
         playerHands := (playerHands g)(p \<mapsto> h @ [last (shuffle rnd (butlast ?pile))]),
         hasDrawn_p3 := True\<rparr>)"
    using assms ne r(2) [of rnd] by (simp add: drawCard_p3_def deal_nonempty Let_def)
  then show ?thesis using r(3) [of rnd] by simp
qed

lemma drawCard_recycles:
  assumes "getCurrentPlayer g = Some p" and "\<not> hasDrawn g"
    and "deck g = []" and "1 < length (discardPile g)"
    and "playerData g p = Some d"
  shows "\<exists>c g'. drawCard rnd p g = (Success None None, g')
     \<and> discardPile g' = [last (discardPile g)]
     \<and> map_option hand (playerData g' p) = Some (hand d @ [c])
     \<and> add_mset c (mset (deck g')) = mset (butlast (discardPile g))"
proof -
  let ?pile = "discardPile g"
  have ne: "?pile \<noteq> []" using assms(4) by auto
  note r = recycled_stock [OF assms(4)]
  have "drawCard rnd p g =
      (Success None None,
       g\<lparr>deck := butlast (shuffle rnd (butlast ?pile)), discardPile := [last ?pile],
         playerData := (playerData g)(p \<mapsto> d\<lparr>hand := hand d @ [last (shuffle rnd (butlast ?pile))]\<rparr>),
         hasDrawn := True\<rparr>)"
    using assms ne r(1) r(2) [of rnd] by (simp add: drawCard_def deal_nonempty)
  then show ?thesis using r(3) [of rnd] by simp
qed

text \<open>
  Claim C5, on server.js.  With an empty stock and a discard pile of one card the call
  fails with "No cards available", and the discard pile has lost its card.
\<close>

theorem drawCard_loses_top_discard:
  "getCurrentPlayer dry_stock_game = Some ''Ann'' \<and> \<not> hasDrawn dry_stock_game
   \<and> deck dry_stock_game = [] \<and> discardPile dry_stock_game = [Some (Card spades R2)]
   \<and> fst (drawCard (\<lambda>i. 0) ''Ann'' dry_stock_game) = Failure ''No cards available''
   \<and> discardPile (snd (drawCard (\<lambda>i. 0) ''Ann'' dry_stock_game)) = []
   \<and> deck (snd (drawCard (\<lambda>i. 0) ''Ann'' dry_stock_game)) = []
   \<and> playerData (snd (drawCard (\<lambda>i. 0) ''Ann'' dry_stock_game)) = playerData dry_stock_game"
  by (simp add: drawCard_def dry_stock_game_def getCurrentPlayer_def deal_def)

theorem drawCard_loses_top_discard_witness:
  "fst (drawCard (\<lambda>i. 0) ''Ann'' dry_stock_game) = Failure ''No cards available''
   \<and> discardPile (snd (drawCard (\<lambda>i. 0) ''Ann'' dry_stock_game)) = []"
  using drawCard_loses_top_discard by blast

section \<open>Scoring a round\<close>

text \<open>What \<^verbatim>\<open>endRound\<close> does in part_003, whose cards have the method
  \<^verbatim>\<open>getScoreValue\<close>: the winner's entry for the round is 0, every other player's is
  the sum of the score values of the cards in hand.\<close>

lemma hand_score_p3_cards: "hand_score_p3 (map Some cs) s = Inr (s + sum_list (map scoreValue cs))"
  by (induction cs arbitrary: s) simp_all

lemma score_players_p3_ok:
  assumes "distinct ps"
    and "\<forall>p \<in> set ps. playerScores g p \<noteq> None \<and> (p \<noteq> w \<longrightarrow> (\<exists>cs. playerHands g p = Some (map Some cs)))"
  shows "\<exists>sc'. score_players_p3 w ps g = (None, g\<lparr>playerScores := sc'\<rparr>)
     \<and> (\<forall>p \<in> set ps. \<forall>sc cs. playerScores g p = Some sc \<longrightarrow> (p \<noteq> w \<longrightarrow> playerHands g p = Some (map Some cs)) \<longrightarrow>
            sc' p = Some (array_set sc (int (currentRound_p3 g) - 1)
                            (if p = w then 0 else sum_list (map scoreValue cs))))
     \<and> (\<forall>q. q \<notin> set ps \<longrightarrow> sc' q = playerScores g q)"
  using assms
proof (induction ps arbitrary: g)
  case Nil
  show ?case by (intro exI [of _ "playerScores g"]) simp
next
  case (Cons p ps)
  obtain sc where sc: "playerScores g p = Some sc" using Cons.prems(2) by auto
  define v where "v = (if p = w then 0 else sum_list (map scoreValue (List.map_filter (\<lambda>s. s) (the (playerHands g p)))))"
  have sco: "(if p \<noteq> w then (case playerHands g p of None \<Rightarrow> Inl TypeError | Some h \<Rightarrow> hand_score_p3 h 0)
             else Inr 0) = Inr v"
  proof (cases "p = w")
    case True
    then show ?thesis by (simp add: v_def)
  next
    case False
    then obtain cs where cs: "playerHands g p = Some (map Some cs)" using Cons.prems(2) by auto
    have "List.map_filter (\<lambda>s. s) (map Some cs) = cs"
      by (induction cs) (simp_all add: List.map_filter_simps)
    then show ?thesis using False cs by (simp add: v_def hand_score_p3_cards)
  qed
  let ?g1 = "g\<lparr>playerScores := (playerScores g)(p \<mapsto> array_set sc (int (currentRound_p3 g) - 1) v)\<rparr>"
  have step: "score_players_p3 w (p # ps) g = score_players_p3 w ps ?g1"
    using sc sco by simp
  have p1: "distinct ps" using Cons.prems(1) by simp
  have p2: "\<forall>q \<in> set ps. playerScores ?g1 q \<noteq> None \<and> (q \<noteq> w \<longrightarrow> (\<exists>cs. playerHands ?g1 q = Some (map Some cs)))"
    using Cons.prems(2) by simp
  from Cons.IH [OF p1 p2] obtain sc' where sc':
    "score_players_p3 w ps ?g1 = (None, ?g1\<lparr>playerScores := sc'\<rparr>)"
    "\<forall>q \<in> set ps. \<forall>sc cs. playerScores ?g1 q = Some sc \<longrightarrow> (q \<noteq> w \<longrightarrow> playerHands ?g1 q = Some (map Some cs)) \<longrightarrow>
            sc' q = Some (array_set sc (int (currentRound_p3 ?g1) - 1)
                            (if q = w then 0 else sum_list (map scoreValue cs)))"
    "\<forall>q. q \<notin> set ps \<longrightarrow> sc' q = playerScores ?g1 q"
    by blast
  have pnot: "p \<notin> set ps" using Cons.prems(1) by simp
  have res: "score_players_p3 w (p # ps) g = (None, g\<lparr>playerScores := sc'\<rparr>)"
    using step sc'(1) by simp
  have rec: "\<forall>q \<in> set (p # ps). \<forall>sc cs. playerScores g q = Some sc \<longrightarrow> (q \<noteq> w \<longrightarrow> playerHands g q = Some (map Some cs)) \<longrightarrow>
            sc' q = Some (array_set sc (int (currentRound_p3 g) - 1)
                            (if q = w then 0 else sum_list (map scoreValue cs)))"
  proof (intro ballI allI impI)
    fix q sc0 cs
    assume q: "q \<in> set (p # ps)" and s0: "playerScores g q = Some sc0"
      and h0: "q \<noteq> w \<longrightarrow> playerHands g q = Some (map Some cs)"
    show "sc' q = Some (array_set sc0 (int (currentRound_p3 g) - 1)
                            (if q = w then 0 else sum_list (map scoreValue cs)))"
    proof (cases "q = p")
      case True
      have "List.map_filter (\<lambda>s. s) (map Some cs) = cs"
        by (induction cs) (simp_all add: List.map_filter_simps)
      then have "v = (if q = w then 0 else sum_list (map scoreValue cs))"
        using True h0 by (auto simp: v_def)
      then show ?thesis using True sc'(3) pnot sc s0 by simp
    next
      case False
      then have "q \<in> set ps" using q by simp
      then show ?thesis using sc'(2) False s0 h0 by simp
    qed
  qed
  have others: "\<forall>q. q \<notin> set (p # ps) \<longrightarrow> sc' q = playerScores g q" using sc'(3) by simp
  show ?case using res rec others by blast
qed

lemma deal_one_each_p3_scores [simp]:
  "playerScores (snd (deal_one_each_p3 ps g)) = playerScores g"
  by (induction ps arbitrary: g) (auto split: option.splits prod.splits)

lemma deal_rounds_p3_scores [simp]:
  "playerScores (snd (deal_rounds_p3 n g)) = playerScores g"
proof (induction n arbitrary: g)
  case 0
  show ?case by simp
next
  case (Suc n)
  obtain e g' where d: "deal_one_each_p3 (players_p3 g) g = (e, g')" by (cases "deal_one_each_p3 (players_p3 g) g")
  have "playerScores g' = playerScores g" using deal_one_each_p3_scores [of "players_p3 g" g] d by simp
  then show ?case using d Suc.IH [of g'] by (cases e) simp_all
qed

lemma dealRound_p3_scores [simp]:
  "playerScores (snd (dealRound_p3 rnd g)) = playerScores g"
proof -
  let ?g0 = "reset_players_p3 (players_p3 g) (g\<lparr>deck_p3 := shuffle rnd initialize, discardPile_p3 := []\<rparr>)"
  obtain e g' where d: "deal_rounds_p3 (10 + currentRound_p3 g) ?g0 = (e, g')"
    by (cases "deal_rounds_p3 (10 + currentRound_p3 g) ?g0")
  have "playerScores g' = playerScores ?g0" using deal_rounds_p3_scores [of "10 + currentRound_p3 g" ?g0] d by simp
  then have "playerScores g' = playerScores g" by simp
  then show ?thesis using d by (cases e) (simp_all add: dealRound_p3_def split: prod.splits)
qed

lemma endRound_p3_records_scores:
  assumes "distinct (players_p3 g)"
    and "\<forall>q \<in> set (players_p3 g). playerScores g q \<noteq> None
           \<and> (q \<noteq> w \<longrightarrow> (\<exists>cs. playerHands g q = Some (map Some cs)))"
    and "p \<in> set (players_p3 g)" and "playerScores g p = Some sc"
    and "p \<noteq> w \<longrightarrow> playerHands g p = Some (map Some cs)"
  shows "playerScores (snd (endRound_p3 rnd w g)) p =
     Some (array_set sc (int (currentRound_p3 g) - 1)
             (if p = w then 0 else sum_list (map scoreValue cs)))"
proof -
  from score_players_p3_ok [OF assms(1,2)] obtain sc' where sc':
    "score_players_p3 w (players_p3 g) g = (None, g\<lparr>playerScores := sc'\<rparr>)"
    "\<forall>p \<in> set (players_p3 g). \<forall>sc cs. playerScores g p = Some sc \<longrightarrow> (p \<noteq> w \<longrightarrow> playerHands g p = Some (map Some cs)) \<longrightarrow>
            sc' p = Some (array_set sc (int (currentRound_p3 g) - 1)
                            (if p = w then 0 else sum_list (map scoreValue cs)))"
    by blast
  have "playerScores (snd (endRound_p3 rnd w g)) = sc'"
  proof (cases "7 \<le> currentRound_p3 g")
    case True
    then show ?thesis using sc'(1) by (simp add: endRound_p3_def split: sum.splits)
  next
    case False
    let ?g2 = "g\<lparr>playerScores := sc', currentRound_p3 := Suc (currentRound_p3 g)\<rparr>"
    have fr: "playerScores (snd (dealRound_p3 rnd ?g2)) = sc'" by simp
    obtain e g3 where d: "dealRound_p3 rnd ?g2 = (e, g3)" by (cases "dealRound_p3 rnd ?g2")
    then have "playerScores g3 = sc'" using fr by simp
    then show ?thesis
      using False sc'(1) d by (cases e) (simp_all add: endRound_p3_def)
  qed
  then show ?thesis using sc'(2) assms(3,4,5) by simp
qed

lemma array_set_in_range:
  "1 \<le> r \<Longrightarrow> r \<le> length sc \<Longrightarrow> array_set sc (int r - 1) v = sc[r - 1 := v]"
proof -
  assume r: "1 \<le> r" "r \<le> length sc"
  then have n: "nat (int r - 1) = r - 1" by simp
  have lt: "r - 1 < length sc" using r by linarith
  have ge: "\<not> int r - 1 < 0" using r by simp
  show ?thesis unfolding array_set_def n using lt ge by simp
qed

lemma scoreValue_table:
  "scoreValue (Card s A) = 20" "scoreValue (Card s J) = 10" "scoreValue (Card s Q) = 10"
  "scoreValue (Card s K) = 10" "scoreValue (Card s R2) = 2" "scoreValue (Card s R3) = 3"
  "scoreValue (Card s R4) = 4" "scoreValue (Card s R5) = 5" "scoreValue (Card s R6) = 6"
  "scoreValue (Card s R7) = 7" "scoreValue (Card s R8) = 8" "scoreValue (Card s R9) = 9"
  "scoreValue (Card s R10) = 10"
  by (simp_all add: scoreValue_def)

text \<open>
  Claim C6, on server.js.  Ann wins round 1 while Bob holds eleven cards.
  \<^verbatim>\<open>endRound\<close> throws at Bob's first card, since the cards of server.js have no method
  \<^verbatim>\<open>getScoreValue\<close>; Bob's score for the round stays 0 and no new round is dealt.
\<close>

theorem endRound_throws_on_loser_hand:
  "map_option hand (playerData last_card_game ''Bob'')
       = Some (hand bobs_data)
   \<and> hand bobs_data \<noteq> []
   \<and> fst (endRound (\<lambda>i. 0) ''Ann'' last_card_game) = Inl TypeError
   \<and> map_option scores (playerData (snd (endRound (\<lambda>i. 0) ''Ann'' last_card_game)) ''Bob'')
       = Some [0, 0, 0, 0, 0, 0, 0]
   \<and> currentRound (snd (endRound (\<lambda>i. 0) ''Ann'' last_card_game)) = 1"
  by (simp add: endRound_def last_card_game_def bobs_data_def hand_score_def array_set_def)

theorem endRound_throws_on_loser_hand_witness:
  "fst (endRound (\<lambda>i. 0) ''Ann'' last_card_game) = Inl TypeError"
  using endRound_throws_on_loser_hand by blast

section \<open>Resolving the buy window\<close>

text \<open>
  Claim C9.  Cy has discarded; Ann and Bob follow him in turn order, and both asked to
  buy, Bob's request arriving first.  \<^verbatim>\<open>processBuyPhase\<close> serves the request that was
  stored first: Bob gets the discard and the penalty card and pays a buy, Ann gets
  nothing.
\<close>

theorem processBuyPhase_serves_first_request:
  "players buy_window_game = [''Ann'', ''Bob'', ''Cy'']
   \<and> getCurrentPlayer buy_window_game = Some ''Cy''
   \<and> requests (buyPhase buy_window_game) = [(''Bob'', True), (''Ann'', True)]
   \<and> fst (processBuyPhase buy_window_game) = None
   \<and> map_option hand (playerData (snd (processBuyPhase buy_window_game)) ''Bob'')
       = Some (hand bobs_data @ [Some (Card hearts K), Some (Card spades J)])
   \<and> map_option buys (playerData (snd (processBuyPhase buy_window_game)) ''Bob'') = Some 2
   \<and> map_option hand (playerData (snd (processBuyPhase buy_window_game)) ''Ann'')
       = Some anns_hand
   \<and> map_option buys (playerData (snd (processBuyPhase buy_window_game)) ''Ann'') = Some 3
   \<and> getCurrentPlayer (snd (processBuyPhase buy_window_game)) = Some ''Ann''"
  by (simp add: processBuyPhase_def buy_window_game_def getCurrentPlayer_def bobs_data_def
      deal_def endBuyPhase_def nextTurn_def)

theorem processBuyPhase_serves_first_request_witness:
  "map_option buys (playerData (snd (processBuyPhase buy_window_game)) ''Bob'') = Some 2
   \<and> map_option buys (playerData (snd (processBuyPhase buy_window_game)) ''Ann'') = Some 3"
  using processBuyPhase_serves_first_request by blast

section \<open>Final standings\<close>

lemma map_of_map_set: "map_of (map_set m k v) = (map_of m)(k \<mapsto> v)"
  by (induction m) (auto simp: fun_eq_iff)

lemma keys_map_set: "fst ` set (map_set m k v) = insert k (fst ` set m)"
proof (induction m)
  case Nil
  show ?case by simp
next
  case (Cons a m)
  obtain k' v' where a: "a = (k', v')" by (cases a)
  show ?case
  proof (cases "k' = k")
    case True
    then show ?thesis using a by simp
  next
    case False
    then have "fst ` set (map_set (a # m) k v) = insert k' (fst ` set (map_set m k v))"
      using a by simp
    also have "\<dots> = insert k' (insert k (fst ` set m))" using Cons.IH by simp
    also have "\<dots> = insert k (fst ` set (a # m))" using a by auto
    finally show ?thesis .
  qed
qed

lemma distinct_map_set: "distinct (map fst m) \<Longrightarrow> distinct (map fst (map_set m k v))"
proof (induction m)
  case Nil
  show ?case by simp
next
  case (Cons a m)
  then show ?case
    using keys_map_set [of m k v] by (cases a) (auto simp: image_iff)
qed

lemma final_scores_ok:
  assumes "\<forall>p \<in> set ps. pd p \<noteq> None" and "distinct (map fst m)"
    and "\<forall>(q, t) \<in> set m. t = sum_list (scores (the (pd q)))"
  shows "\<exists>m'. final_scores pd ps m = Inr m' \<and> distinct (map fst m')
      \<and> fst ` set m' = fst ` set m \<union> set ps
      \<and> (\<forall>(q, t) \<in> set m'. t = sum_list (scores (the (pd q))))"
  using assms
proof (induction ps arbitrary: m)
  case Nil
  then show ?case by simp
next
  case (Cons p ps)
  then obtain d where d: "pd p = Some d" by auto
  let ?m = "map_set m p (sum_list (scores d))"
  have dist: "distinct (map fst ?m)" using Cons.prems(2) by (rule distinct_map_set)
  have tot: "\<forall>(q, t) \<in> set ?m. t = sum_list (scores (the (pd q)))"
  proof (clarify)
    fix q t assume qt: "(q, t) \<in> set ?m"
    then have "map_of ?m q = Some t" using dist by simp
    then have "((map_of m)(p \<mapsto> sum_list (scores d))) q = Some t"
      by (simp add: map_of_map_set)
    then show "t = sum_list (scores (the (pd q)))"
      using d Cons.prems(3) by (auto split: if_splits dest!: map_of_SomeD)
  qed
  have "\<forall>p \<in> set ps. pd p \<noteq> None" using Cons.prems(1) by simp
  from Cons.IH [OF this dist tot] obtain m' where m':
    "final_scores pd ps ?m = Inr m'" "distinct (map fst m')"
    "fst ` set m' = fst ` set ?m \<union> set ps"
    "\<forall>(q, t) \<in> set m'. t = sum_list (scores (the (pd q)))" by blast
  have "fst ` set m' = fst ` set m \<union> set (p # ps)"
    using m'(3) keys_map_set [of m p "sum_list (scores d)"] by auto
  then show ?case using m' d by simp
qed

lemma endGame_ok:
  assumes "players g \<noteq> []" and "\<forall>p \<in> set (players g). playerData g p \<noteq> None"
  shows "\<exists>res. endGame g = Inr res
     \<and> sorted (map snd (finalStandings res))
     \<and> set (finalStandings res)
         = (\<lambda>p. (p, sum_list (scores (the (playerData g p))))) ` set (players g)
     \<and> distinct (map fst (finalStandings res))
     \<and> finalStandings res \<noteq> []
     \<and> (winner res, winnerScore res) = hd (finalStandings res)"
proof -
  from final_scores_ok [of "players g" "playerData g" "[]"] assms(2)
  obtain m where m: "final_scores (playerData g) (players g) [] = Inr m"
    "distinct (map fst m)" "fst ` set m = set (players g)"
    "\<forall>(q, t) \<in> set m. t = sum_list (scores (the (playerData g q)))" by auto
  let ?s = "sort_key snd m"
  have set_m: "set m = (\<lambda>p. (p, sum_list (scores (the (playerData g p))))) ` set (players g)"
  proof (intro set_eqI iffI)
    fix x assume x: "x \<in> set m"
    obtain q t where qt: "x = (q, t)" by (cases x)
    have "q \<in> fst ` set m" using x qt by force
    then have "q \<in> set (players g)" using m(3) by simp
    moreover have "t = sum_list (scores (the (playerData g q)))" using m(4) x qt by auto
    ultimately show "x \<in> (\<lambda>p. (p, sum_list (scores (the (playerData g p))))) ` set (players g)"
      using qt by simp
  next
    fix x assume "x \<in> (\<lambda>p. (p, sum_list (scores (the (playerData g p))))) ` set (players g)"
    then obtain p where p: "p \<in> set (players g)" "x = (p, sum_list (scores (the (playerData g p))))"
      by auto
    then have "p \<in> fst ` set m" using m(3) by simp
    then obtain t where "(p, t) \<in> set m" by force
    then show "x \<in> set m" using m(4) p by auto
  qed
  have ne: "?s \<noteq> []" using assms(1) m(3) by (cases m) auto
  then obtain first rest where s: "?s = first # rest" by (cases ?s) auto
  have dist: "distinct (map fst ?s)"
  proof -
    have "mset (map fst ?s) = mset (map fst m)" by simp
    then show ?thesis using m(2) by (metis mset_eq_imp_distinct_iff)
  qed
  let ?res = "\<lparr>winner = fst first, winnerScore = snd first, finalStandings = first # rest\<rparr>"
  have "endGame g = Inr ?res" using m(1) s by (simp add: endGame_def)
  moreover have "sorted (map snd (finalStandings ?res))"
    using sorted_sort_key [of snd m] s by simp
  moreover have "set (finalStandings ?res)
         = (\<lambda>p. (p, sum_list (scores (the (playerData g p))))) ` set (players g)"
    using set_m s set_sort [of snd m] by simp
  moreover have "distinct (map fst (finalStandings ?res))" using dist s by simp
  ultimately show ?thesis by (intro exI [of _ ?res]) simp
qed

text \<open>
  Claim C8.  With at least one player, \<^verbatim>\<open>endGame\<close> gives each player the sum of the
  entries of their score array, lists the players in ascending order of that total, and
  names as winner the first of the list, whose total no other player's total is below.
\<close>

theorem endGame_lowest_total_wins:
  assumes "players g \<noteq> []" and "\<forall>p \<in> set (players g). playerData g p \<noteq> None"
  shows "\<exists>res. endGame g = Inr res
     \<and> sorted (map snd (finalStandings res))
     \<and> set (finalStandings res)
         = (\<lambda>p. (p, sum_list (scores (the (playerData g p))))) ` set (players g)
     \<and> distinct (map fst (finalStandings res))
     \<and> (winner res, winnerScore res) = hd (finalStandings res)
     \<and> winner res \<in> set (players g)
     \<and> winnerScore res = sum_list (scores (the (playerData g (winner res))))
     \<and> (\<forall>p \<in> set (players g). winnerScore res \<le> sum_list (scores (the (playerData g p))))"
proof -
  from endGame_ok [OF assms] obtain res where res: "endGame g = Inr res"
    "sorted (map snd (finalStandings res))"
    "set (finalStandings res)
         = (\<lambda>p. (p, sum_list (scores (the (playerData g p))))) ` set (players g)"
    "distinct (map fst (finalStandings res))"
    "finalStandings res \<noteq> []"
    "(winner res, winnerScore res) = hd (finalStandings res)" by blast
  have mem: "(winner res, winnerScore res) \<in> set (finalStandings res)"
    using res(5,6) by simp
  then have w: "winner res \<in> set (players g)"
    "winnerScore res = sum_list (scores (the (playerData g (winner res))))"
    using res(3) by auto
  have low: "winnerScore res \<le> sum_list (scores (the (playerData g p)))"
    if "p \<in> set (players g)" for p
  proof -
    have "(p, sum_list (scores (the (playerData g p)))) \<in> set (finalStandings res)"
      using that res(3) by auto
    then have "sum_list (scores (the (playerData g p))) \<in> set (map snd (finalStandings res))"
      by force
    moreover have "snd (hd (finalStandings res)) = hd (map snd (finalStandings res))"
      using res(5) by (simp add: hd_map)
    ultimately have "snd (hd (finalStandings res)) \<le> sum_list (scores (the (playerData g p)))"
      using res(2,5) by (cases "finalStandings res") auto
    then show ?thesis using res(6) by (metis snd_conv)
  qed
  show ?thesis using res(1,2,3,4,6) w low by blast
qed

theorem endGame_lowest_total_wins_witness:
  "\<exists>res. endGame scored_game = Inr res \<and> sorted (map snd (finalStandings res))
     \<and> winner res \<in> set (players scored_game)
     \<and> winnerScore res = sum_list (scores (the (playerData scored_game (winner res))))"
proof -
  have 1: "players scored_game \<noteq> []" by (simp add: scored_game_def)
  have 2: "\<forall>p \<in> set (players scored_game). playerData scored_game p \<noteq> None"
    by (simp add: scored_game_def)
  from endGame_lowest_total_wins [OF 1 2] show ?thesis by blast
qed

text \<open>The standings of the example: Bob and Cy tie at 62; the stable sort keeps Bob,
  who sits before Cy, in front.\<close>

lemma endGame_scored_game:
  "endGame scored_game =
     Inr \<lparr>winner = ''Bob'', winnerScore = 62,
          finalStandings = [(''Bob'', 62), (''Cy'', 62), (''Ann'', 95)]\<rparr>"
  by (simp add: endGame_def scored_game_def)

text \<open>\<^verbatim>\<open>endGame\<close> of part_003 is the same function of the score arrays.\<close>

lemma final_scores_p3_eq:
  "final_scores_p3 sc ps m =
     final_scores (\<lambda>p. map_option (\<lambda>s. \<lparr>hand = [], melds = [], buys = 0, scores = s, goneDown = False\<rparr>) (sc p)) ps m"
  by (induction ps arbitrary: m) (auto split: option.splits)

lemma endGame_p3_eq:
  "endGame_p3 g =
     endGame \<lparr>players = players_p3 g, aiPlayers = Map.empty,
       playerData = (\<lambda>p. map_option (\<lambda>s. \<lparr>hand = [], melds = [], buys = 0, scores = s, goneDown = False\<rparr>)
                            (playerScores g p)),
       currentRound = currentRound_p3 g, currentPlayerIndex = currentPlayerIndex_p3 g,
       deck = deck_p3 g, discardPile = discardPile_p3 g, hasDrawn = hasDrawn_p3 g,
       buyPhase = no_buy_phase\<rparr>"
  by (simp add: endGame_p3_def endGame_def final_scores_p3_eq)

section \<open>Laying off\<close>

lemma tally_melds_counts:
  "tally_melds req ms (a, b) = (a + count_sets req ms, b + count_runs req ms)"
  by (induction ms arbitrary: a b) (auto simp: count_sets_def count_runs_def)

lemma validate_requirements_iff:
  "validatePlayerMeetsRoundRequirements p g = Some True \<longleftrightarrow>
     (\<exists>req. requirement_of (currentRound_p3 g) = Some req
        \<and> sets req \<le> count_sets req (case playerMelds g p of None \<Rightarrow> [] | Some ms \<Rightarrow> ms)
        \<and> runs req \<le> count_runs req (case playerMelds g p of None \<Rightarrow> [] | Some ms \<Rightarrow> ms))"
  by (auto simp: validatePlayerMeetsRoundRequirements_def tally_melds_counts split: option.splits)

lemma splice1_last_card:
  assumes "0 \<le> i" and "i < int (length h)" and "splice1 h i = []"
  shows "h = [h ! nat i]" and "nat i = 0"
proof -
  have "take (nat i) h @ drop (Suc (nat i)) h = []"
    using assms by (simp add: splice1_def Let_def)
  then have "take (nat i) h = []" "drop (Suc (nat i)) h = []" by simp_all
  then have i0: "nat i = 0" and len: "length h \<le> Suc 0" using assms by auto
  show "nat i = 0" by (rule i0)
  show "h = [h ! nat i]" using i0 len assms by (cases h) auto
qed

lemma layOffCard_p3_failure_unchanged:
  assumes "layOffCard_p3 rnd p ci tp mi g = (Failure msg, g')"
  shows "g' = g"
proof (cases "getCurrentPlayer_p3 g = Some p \<and> validatePlayerMeetsRoundRequirements p g = Some True")
  case False
  then show ?thesis
    using assms by (auto simp: layOffCard_p3_def split: option.splits bool.splits if_splits)
next
  case turn: True
  show ?thesis
  proof (cases "playerHands g p")
    case None
    then show ?thesis using assms turn by (simp add: layOffCard_p3_def)
  next
    case (Some h)
    show ?thesis
    proof (cases "ci < 0 \<or> int (length h) \<le> ci")
      case True
      then show ?thesis using assms turn Some by (auto simp: layOffCard_p3_def)
    next
      case ci: False
      show ?thesis
      proof (cases "playerMelds g tp")
        case None
        then show ?thesis using assms turn Some ci by (auto simp: layOffCard_p3_def)
      next
        case tms: (Some targetMelds)
        show ?thesis
        proof (cases "mi < 0 \<or> int (length targetMelds) \<le> mi")
          case True
          then show ?thesis using assms turn Some ci tms by (auto simp: layOffCard_p3_def)
        next
          case mi: False
          let ?c = "h ! nat ci"
          let ?m = "targetMelds ! nat mi"
          show ?thesis
          proof (cases "canLayOffCard ?c ?m")
            case (Inl e)
            then show ?thesis using assms turn Some ci tms mi by (auto simp: layOffCard_p3_def)
          next
            case (Inr ok)
            show ?thesis
            proof (cases ok)
              case False
              then show ?thesis
                using assms turn Some ci tms mi Inr by (auto simp: layOffCard_p3_def)
            next
              case True
              let ?h1 = "splice1 h ci"
              let ?g1 = "g\<lparr>playerHands := (playerHands g)(p \<mapsto> ?h1),
                          playerMelds := (playerMelds g)(tp \<mapsto>
                            targetMelds[nat mi := ?m\<lparr>cards := cards ?m @ [?c]\<rparr>])\<rparr>"
              have res: "layOffCard_p3 rnd p ci tp mi g =
                 (if ?c = None then (Thrown TypeError, ?g1)
                  else if ?h1 = [] then
                    (case validatePlayerMeetsRoundRequirements p ?g1 of
                       None \<Rightarrow> (Thrown TypeError, ?g1)
                     | Some False \<Rightarrow>
                         (Failure (''Cannot go out! You need: '' @ melds_of_round ?g1),
                          ?g1\<lparr>playerHands := (playerHands ?g1)(p \<mapsto>
                                 take (nat ci) ?h1 @ [?c] @ drop (nat ci) ?h1),
                             playerMelds := (playerMelds ?g1)(tp \<mapsto>
                                 targetMelds[nat mi := ?m\<lparr>cards := butlast (cards ?m @ [?c])\<rparr>])\<rparr>)
                     | Some True \<Rightarrow>
                         (case endRound_p3 rnd p ?g1 of
                            (Inl e, g2) \<Rightarrow> (Thrown e, g2)
                          | (Inr res, g2) \<Rightarrow> (Success (Some ?c) (Some res), g2)))
                  else (Success (Some ?c) None, ?g1))"
                using turn Some ci tms mi Inr True
                by (simp add: layOffCard_p3_def Let_def)
              have empty: "?h1 = []" and unmet: "validatePlayerMeetsRoundRequirements p ?g1 = Some False"
                using assms res by (auto split: if_splits option.splits bool.splits prod.splits sum.splits)
              have g': "g' = ?g1\<lparr>playerHands := (playerHands ?g1)(p \<mapsto>
                                 take (nat ci) ?h1 @ [?c] @ drop (nat ci) ?h1),
                             playerMelds := (playerMelds ?g1)(tp \<mapsto>
                                 targetMelds[nat mi := ?m\<lparr>cards := butlast (cards ?m @ [?c])\<rparr>])\<rparr>"
                using assms res empty unmet by (auto split: if_splits)
              have h: "h = [?c]" using splice1_last_card(1) [of ci h] ci empty by simp
              have hands: "(playerHands g)(p \<mapsto> [?c]) = playerHands g"
                using Some h by (metis map_upd_triv)
              have melds: "(playerMelds g)(tp \<mapsto> targetMelds) = playerMelds g"
                using tms by (rule map_upd_triv)
              show ?thesis
                unfolding g' using empty hands melds by simp
            qed
          qed
        qed
      qed
    qed
  qed
qed

lemma sorted_first_Min:
  fixes xs :: "int list"
  assumes "sorted xs" and "xs \<noteq> []"
  shows "xs ! 0 = Min (set xs)"
proof (rule sym, rule Min_eqI)
  show "finite (set xs)" by simp
  show "xs ! 0 \<in> set xs" using assms(2) by simp
  fix y assume "y \<in> set xs"
  then obtain j where "j < length xs" "xs ! j = y" by (auto simp: in_set_conv_nth)
  then show "xs ! 0 \<le> y" using assms(1) sorted_iff_nth_mono [of xs] by auto
qed

lemma sorted_last_Max:
  fixes xs :: "int list"
  assumes "sorted xs" and "xs \<noteq> []"
  shows "xs ! (length xs - 1) = Max (set xs)"
proof (rule sym, rule Max_eqI)
  show "finite (set xs)" by simp
  show "xs ! (length xs - 1) \<in> set xs" using assms(2) by simp
  fix y assume "y \<in> set xs"
  then obtain j where j: "j < length xs" "xs ! j = y" by (auto simp: in_set_conv_nth)
  then have "j \<le> length xs - 1" by simp
  then show "y \<le> xs ! (length xs - 1)"
    using assms j sorted_iff_nth_mono [of xs] by (metis diff_less length_greater_0_conv zero_less_one)
qed

lemma map_filter_Some: "List.map_filter (\<lambda>s. s) (map Some cs) = cs"
  by (induction cs) (simp_all add: List.map_filter_simps)

lemma canLayOffCard_cards:
  assumes "cards m = map Some cs" and "cs \<noteq> []"
  shows "canLayOffCard (Some k) m =
     Inr (if type m = ''set'' then \<forall>c \<in> set cs. rank c = rank k
          else if type m = ''run'' then
            suit k = suit (hd cs) \<and>
            (card_value k = Min (card_value ` set cs) - 1 \<or>
             card_value k = Max (card_value ` set cs) + 1)
          else False)"
proof -
  let ?vs = "sort (map card_value cs)"
  have first: "at_index (cards m) 0 = Some (hd cs)"
    using assms by (cases cs) (simp_all add: at_index_def)
  have nonone: "None \<notin> set (cards m)" using assms(1) by auto
  have ne: "?vs \<noteq> []" using assms(2) by (metis length_0_conv length_map length_sort)
  have lo: "?vs ! 0 = Min (card_value ` set cs)"
    using sorted_first_Min [of ?vs] ne by simp
  have hi: "?vs ! (length ?vs - 1) = Max (card_value ` set cs)"
    using sorted_last_Max [of ?vs] ne by simp
  show ?thesis
  proof (cases "type m = ''set''")
    case True
    then show ?thesis using assms by (simp add: canLayOffCard_def every_js_Some)
  next
    case notset: False
    show ?thesis
    proof (cases "type m = ''run''")
      case True
      have "canLayOffCard (Some k) m =
          (if suit k \<noteq> suit (hd cs) then Inr False
           else Inr (card_value k = ?vs ! 0 - 1 \<or> card_value k = ?vs ! (length ?vs - 1) + 1))"
        using True first nonone assms(1)
        by (simp add: canLayOffCard_def map_filter_Some Let_def del: length_sort)
      then show ?thesis using True lo hi by (simp del: length_sort)
    next
      case False
      then show ?thesis using notset by (simp add: canLayOffCard_def)
    qed
  qed
qed

lemma layOffCard_p3_success_needs:
  assumes "layOffCard_p3 rnd p ci tp mi g = (Success x y, g')"
  shows "getCurrentPlayer_p3 g = Some p
     \<and> validatePlayerMeetsRoundRequirements p g = Some True
     \<and> (\<exists>h targetMelds. playerHands g p = Some h \<and> 0 \<le> ci \<and> ci < int (length h)
            \<and> playerMelds g tp = Some targetMelds \<and> 0 \<le> mi \<and> mi < int (length targetMelds)
            \<and> canLayOffCard (h ! nat ci) (targetMelds ! nat mi) = Inr True)"
proof -
  have turn: "getCurrentPlayer_p3 g = Some p"
    using assms by (auto simp: layOffCard_p3_def split: if_splits)
  have met: "validatePlayerMeetsRoundRequirements p g = Some True"
    using assms turn by (auto simp: layOffCard_p3_def split: option.splits bool.splits)
  obtain h where h: "playerHands g p = Some h"
    using assms turn met by (cases "playerHands g p") (auto simp: layOffCard_p3_def)
  have ci: "0 \<le> ci \<and> ci < int (length h)"
    using assms turn met h by (auto simp: layOffCard_p3_def split: if_splits)
  obtain tms where tms: "playerMelds g tp = Some tms"
    using assms turn met h ci by (cases "playerMelds g tp") (auto simp: layOffCard_p3_def)
  have mi: "0 \<le> mi \<and> mi < int (length tms)"
    using assms turn met h ci tms by (auto simp: layOffCard_p3_def split: if_splits)
  have "canLayOffCard (h ! nat ci) (tms ! nat mi) = Inr True"
    using assms turn met h ci tms mi
    by (cases "canLayOffCard (h ! nat ci) (tms ! nat mi)")
       (auto simp: layOffCard_p3_def Let_def split: bool.splits)
  then show ?thesis using turn met h ci tms mi by blast
qed

text \<open>
  Claim C10.  \<^verbatim>\<open>layOffCard\<close> of part_003 answers with a success only if the caller is
  the current player, the caller's melds meet the round's required numbers of sets and
  runs, and \<^verbatim>\<open>canLayOffCard\<close> accepts the chosen card for the target meld.  On a meld
  of cards \<^verbatim>\<open>canLayOffCard\<close> accepts a card for a set exactly if every card of the set has
  its rank, and for a run exactly if it has the suit of the run's first card and its
  value is the run's lowest value minus 1 or the run's highest value plus 1.  Every call
  answered with a failure, the failed go-out included, leaves the whole state as it was.
  The method of part_001 never answers with a success and changes nothing.
\<close>

theorem layOffCard_contract:
  "(\<forall>x y g'. layOffCard_p3 rnd p ci tp mi g = (Success x y, g') \<longrightarrow>
        getCurrentPlayer_p3 g = Some p
        \<and> (\<exists>req. requirement_of (currentRound_p3 g) = Some req
              \<and> sets req \<le> count_sets req (case playerMelds g p of None \<Rightarrow> [] | Some ms \<Rightarrow> ms)
              \<and> runs req \<le> count_runs req (case playerMelds g p of None \<Rightarrow> [] | Some ms \<Rightarrow> ms))
        \<and> (\<exists>h targetMelds. playerHands g p = Some h \<and> 0 \<le> ci \<and> ci < int (length h)
              \<and> playerMelds g tp = Some targetMelds \<and> 0 \<le> mi \<and> mi < int (length targetMelds)
              \<and> canLayOffCard (h ! nat ci) (targetMelds ! nat mi) = Inr True))
   \<and> (\<forall>msg g'. layOffCard_p3 rnd p ci tp mi g = (Failure msg, g') \<longrightarrow> g' = g)
   \<and> (\<forall>k (m::meld) cs. cards m = map Some cs \<and> cs \<noteq> [] \<longrightarrow>
        canLayOffCard (Some k) m =
          Inr (if type m = ''set'' then \<forall>c \<in> set cs. rank c = rank k
               else if type m = ''run'' then
                 suit k = suit (hd cs) \<and>
                 (card_value k = Min (card_value ` set cs) - 1 \<or>
                  card_value k = Max (card_value ` set cs) + 1)
               else False))
   \<and> (\<forall>x y. fst (layOffCard_p1 p ci tp mi g) \<noteq> Success x y)
   \<and> snd (layOffCard_p1 p ci tp mi g) = g"
proof (intro conjI allI impI)
  fix x y g' assume s: "layOffCard_p3 rnd p ci tp mi g = (Success x y, g')"
  show "getCurrentPlayer_p3 g = Some p"
    using layOffCard_p3_success_needs [OF s] by blast
  show "\<exists>req. requirement_of (currentRound_p3 g) = Some req
              \<and> sets req \<le> count_sets req (case playerMelds g p of None \<Rightarrow> [] | Some ms \<Rightarrow> ms)
              \<and> runs req \<le> count_runs req (case playerMelds g p of None \<Rightarrow> [] | Some ms \<Rightarrow> ms)"
    using layOffCard_p3_success_needs [OF s] validate_requirements_iff [of p g] by blast
  show "\<exists>h targetMelds. playerHands g p = Some h \<and> 0 \<le> ci \<and> ci < int (length h)
              \<and> playerMelds g tp = Some targetMelds \<and> 0 \<le> mi \<and> mi < int (length targetMelds)
              \<and> canLayOffCard (h ! nat ci) (targetMelds ! nat mi) = Inr True"
    using layOffCard_p3_success_needs [OF s] by blast
next
  fix msg g' assume "layOffCard_p3 rnd p ci tp mi g = (Failure msg, g')"
  then show "g' = g" by (rule layOffCard_p3_failure_unchanged)
next
  fix k and m :: meld and cs assume "cards m = map Some cs \<and> cs \<noteq> []"
  then show "canLayOffCard (Some k) m =
          Inr (if type m = ''set'' then \<forall>c \<in> set cs. rank c = rank k
               else if type m = ''run'' then
                 suit k = suit (hd cs) \<and>
                 (card_value k = Min (card_value ` set cs) - 1 \<or>
                  card_value k = Max (card_value ` set cs) + 1)
               else False)"
    using canLayOffCard_cards by blast
next
  fix x y show "fst (layOffCard_p1 p ci tp mi g) \<noteq> Success x y"
    by (simp add: layOffCard_p1_def)
next
  show "snd (layOffCard_p1 p ci tp mi g) = g" by (simp add: layOffCard_p1_def)
qed

lemma lay_off_two_of_clubs:
  "fst (layOffCard_p3 (\<lambda>i. 0) ''Ann'' 1 ''Bob'' 0 lay_off_game_p3) = Success (Some (Some (Card clubs R2))) None"
  by (simp add: layOffCard_p3_def lay_off_game_p3_def getCurrentPlayer_p3_def
      validatePlayerMeetsRoundRequirements_def requirement_of_def ROUND_REQUIREMENTS_def
      three_sevens_def bobs_data_def canLayOffCard_def at_index_def splice1_def Let_def
      List.map_filter_simps card_value_def)

lemma lay_off_king_of_hearts:
  "fst (layOffCard_p3 (\<lambda>i. 0) ''Ann'' 2 ''Bob'' 0 lay_off_game_p3) = Failure ''Card cannot be added to that meld''"
  by (simp add: layOffCard_p3_def lay_off_game_p3_def getCurrentPlayer_p3_def
      validatePlayerMeetsRoundRequirements_def requirement_of_def ROUND_REQUIREMENTS_def
      three_sevens_def bobs_data_def canLayOffCard_def at_index_def splice1_def Let_def
      List.map_filter_simps card_value_def)

theorem layOffCard_contract_witness:
  "fst (layOffCard_p3 (\<lambda>i. 0) ''Ann'' 1 ''Bob'' 0 lay_off_game_p3) = Success (Some (Some (Card clubs R2))) None
   \<and> getCurrentPlayer_p3 lay_off_game_p3 = Some ''Ann''
   \<and> fst (layOffCard_p3 (\<lambda>i. 0) ''Ann'' 2 ''Bob'' 0 lay_off_game_p3) = Failure ''Card cannot be added to that meld''
   \<and> snd (layOffCard_p3 (\<lambda>i. 0) ''Ann'' 2 ''Bob'' 0 lay_off_game_p3) = lay_off_game_p3"
proof -
  let ?ok = "layOffCard_p3 (\<lambda>i. 0) ''Ann'' 1 ''Bob'' 0 lay_off_game_p3"
  let ?no = "layOffCard_p3 (\<lambda>i. 0) ''Ann'' 2 ''Bob'' 0 lay_off_game_p3"
  have ok: "?ok = (Success (Some (Some (Card clubs R2))) None, snd ?ok)"
    using lay_off_two_of_clubs by (metis prod.collapse)
  have no: "?no = (Failure ''Card cannot be added to that meld'', snd ?no)"
    using lay_off_king_of_hearts by (metis prod.collapse)
  have "getCurrentPlayer_p3 lay_off_game_p3 = Some ''Ann''"
    using layOffCard_contract [of "\<lambda>i. 0" "''Ann''" 1 "''Bob''" 0 lay_off_game_p3] ok by blast
  moreover have "snd ?no = lay_off_game_p3"
    using layOffCard_contract [of "\<lambda>i. 0" "''Ann''" 2 "''Bob''" 0 lay_off_game_p3] no by blast
  ultimately show ?thesis using lay_off_two_of_clubs lay_off_king_of_hearts by simp
qed

subsection \<open>\<^verbatim>\<open>layOffCard\<close> of part_003 throws nothing on a state of the game\<close>

text \<open>On a state as the game produces it (\<^const>\<open>well_formed_p3\<close>), no call of
  \<^verbatim>\<open>layOffCard\<close> of part_003 throws: a call that is not answered with a success is
  answered with a failure, and so leaves the state as it was.  The deal and the end of a
  round, which a go-out by lay-off runs, throw nothing there either.\<close>

lemma deal_one_each_p3_no_throw:
  assumes "\<forall>p \<in> set ps. playerHands g p \<noteq> None"
  shows "fst (deal_one_each_p3 ps g) = None
     \<and> (\<forall>q. playerHands g q \<noteq> None \<longrightarrow> playerHands (snd (deal_one_each_p3 ps g)) q \<noteq> None)
     \<and> players_p3 (snd (deal_one_each_p3 ps g)) = players_p3 g"
  using assms
proof (induction ps arbitrary: g)
  case Nil
  show ?case by simp
next
  case (Cons p ps)
  obtain h where h: "playerHands g p = Some h" using Cons.prems by auto
  obtain c cs where d: "deal (deck_p3 g) = (c, cs)" by (cases "deal (deck_p3 g)")
  let ?g1 = "g\<lparr>deck_p3 := cs, playerHands := (playerHands g)(p \<mapsto> h @ [c])\<rparr>"
  have step: "deal_one_each_p3 (p # ps) g = deal_one_each_p3 ps ?g1" using h d by simp
  have "\<forall>q \<in> set ps. playerHands ?g1 q \<noteq> None" using Cons.prems by simp
  from Cons.IH [OF this] show ?case unfolding step by simp
qed

lemma deal_rounds_p3_no_throw:
  assumes "\<forall>p \<in> set (players_p3 g). playerHands g p \<noteq> None"
  shows "fst (deal_rounds_p3 n g) = None"
  using assms
proof (induction n arbitrary: g)
  case 0
  show ?case by simp
next
  case (Suc n)
  obtain e g' where d: "deal_one_each_p3 (players_p3 g) g = (e, g')"
    by (cases "deal_one_each_p3 (players_p3 g) g")
  have e: "e = None" and hs: "\<forall>q. playerHands g q \<noteq> None \<longrightarrow> playerHands g' q \<noteq> None"
    and ps: "players_p3 g' = players_p3 g"
    using deal_one_each_p3_no_throw [OF Suc.prems] d by simp_all
  have "\<forall>p \<in> set (players_p3 g'). playerHands g' p \<noteq> None" using Suc.prems hs ps by simp
  from Suc.IH [OF this] show ?case using d e by simp
qed

lemma dealRound_p3_no_throw: "fst (dealRound_p3 rnd g) = None"
proof -
  let ?g0 = "reset_players_p3 (players_p3 g) (g\<lparr>deck_p3 := shuffle rnd initialize, discardPile_p3 := []\<rparr>)"
  have "\<forall>p \<in> set (players_p3 ?g0). playerHands ?g0 p \<noteq> None"
    by (simp add: reset_players_p3_hands)
  then have "fst (deal_rounds_p3 (10 + currentRound_p3 g) ?g0) = None"
    by (rule deal_rounds_p3_no_throw)
  then show ?thesis
    by (cases "deal_rounds_p3 (10 + currentRound_p3 g) ?g0")
       (simp add: dealRound_p3_def split: prod.splits)
qed

lemma endRound_p3_no_throw:
  assumes "distinct (players_p3 g)" and "players_p3 g \<noteq> []"
    and "\<forall>q \<in> set (players_p3 g). playerScores g q \<noteq> None
           \<and> (q \<noteq> w \<longrightarrow> (\<exists>cs. playerHands g q = Some (map Some cs)))"
  shows "\<exists>res. fst (endRound_p3 rnd w g) = Inr res"
proof -
  from score_players_p3_ok [OF assms(1,3)] obtain sc' where sc':
    "score_players_p3 w (players_p3 g) g = (None, g\<lparr>playerScores := sc'\<rparr>)"
    "\<forall>p \<in> set (players_p3 g). \<forall>sc cs. playerScores g p = Some sc \<longrightarrow> (p \<noteq> w \<longrightarrow> playerHands g p = Some (map Some cs)) \<longrightarrow>
            sc' p = Some (array_set sc (int (currentRound_p3 g) - 1)
                            (if p = w then 0 else sum_list (map scoreValue cs)))"
    by blast
  let ?g1 = "g\<lparr>playerScores := sc'\<rparr>"
  show ?thesis
  proof (cases "7 \<le> currentRound_p3 g")
    case True
    have def: "\<forall>p \<in> set (players_p3 g). sc' p \<noteq> None"
    proof
      fix p assume p: "p \<in> set (players_p3 g)"
      then obtain sc where sc: "playerScores g p = Some sc" using assms(3) by auto
      show "sc' p \<noteq> None"
      proof (cases "p = w")
        case True
        then show ?thesis using sc'(2) p sc by auto
      next
        case False
        then obtain cs where "playerHands g p = Some (map Some cs)" using assms(3) p by auto
        then show ?thesis using sc'(2) p sc by force
      qed
    qed
    let ?e = "\<lparr>players = players_p3 ?g1, aiPlayers = Map.empty,
       playerData = (\<lambda>p. map_option (\<lambda>s. \<lparr>hand = [], melds = [], buys = 0, scores = s, goneDown = False\<rparr>)
                            (playerScores ?g1 p)),
       currentRound = currentRound_p3 ?g1, currentPlayerIndex = currentPlayerIndex_p3 ?g1,
       deck = deck_p3 ?g1, discardPile = discardPile_p3 ?g1, hasDrawn = hasDrawn_p3 ?g1,
       buyPhase = no_buy_phase\<rparr>"
    have 1: "players ?e \<noteq> []" using assms(2) by simp
    have 2: "\<forall>p \<in> set (players ?e). playerData ?e p \<noteq> None" using def by simp
    from endGame_ok [OF 1 2] obtain res where "endGame ?e = Inr res" by blast
    then have "endGame_p3 ?g1 = Inr res" by (simp only: endGame_p3_eq)
    then show ?thesis using True sc'(1) by (simp add: endRound_p3_def)
  next
    case False
    let ?g2 = "?g1\<lparr>currentRound_p3 := currentRound_p3 ?g1 + 1\<rparr>"
    obtain e g3 where d: "dealRound_p3 rnd ?g2 = (e, g3)" by (cases "dealRound_p3 rnd ?g2")
    have "e = None" using dealRound_p3_no_throw [of rnd ?g2] d by simp
    then show ?thesis using False sc'(1) d by (simp add: endRound_p3_def)
  qed
qed

lemma cards_only: "None \<notin> set xs \<Longrightarrow> \<exists>cs. xs = map Some cs"
proof (induction xs)
  case Nil
  show ?case by simp
next
  case (Cons a xs)
  then obtain cs where "xs = map Some cs" by auto
  moreover obtain c where "a = Some c" using Cons.prems by (cases a) auto
  ultimately have "a # xs = map Some (c # cs)" by simp
  then show ?case by (rule exI)
qed

lemma splice1_subset: "set (splice1 xs i) \<subseteq> set xs"
proof -
  have "set (take k xs @ drop (Suc k) xs) \<subseteq> set xs" for k
    using set_take_subset [of k xs] set_drop_subset [of "Suc k" xs] by auto
  then show ?thesis by (simp add: splice1_def Let_def)
qed

lemma current_player_p3_member: "getCurrentPlayer_p3 g = Some p \<Longrightarrow> p \<in> set (players_p3 g)"
  by (auto simp: getCurrentPlayer_p3_def split: if_splits)

lemma validate_requirements_defined:
  "requirement_of (currentRound_p3 g) \<noteq> None \<Longrightarrow> validatePlayerMeetsRoundRequirements p g \<noteq> None"
  by (auto simp: validatePlayerMeetsRoundRequirements_def split: option.splits prod.splits)

lemma layOffCard_p3_no_throw:
  assumes "well_formed_p3 g"
  shows "fst (layOffCard_p3 rnd p ci tp mi g) \<noteq> Thrown e"
proof (cases "getCurrentPlayer_p3 g = Some p")
  case False
  then show ?thesis by (simp add: layOffCard_p3_def)
next
  case turn: True
  have wf: "distinct (players_p3 g)" "requirement_of (currentRound_p3 g) \<noteq> None"
    "\<forall>q \<in> set (players_p3 g). (\<exists>h. playerHands g q = Some h \<and> None \<notin> set h) \<and> playerScores g q \<noteq> None"
    "\<forall>q ms. playerMelds g q = Some ms \<longrightarrow> (\<forall>m \<in> set ms. cards m \<noteq> [] \<and> None \<notin> set (cards m))"
    using assms by (simp_all add: well_formed_p3_def)
  have pin: "p \<in> set (players_p3 g)" using turn by (rule current_player_p3_member)
  obtain b where b: "validatePlayerMeetsRoundRequirements p g = Some b"
    using validate_requirements_defined [OF wf(2), of p] by auto
  obtain h where h: "playerHands g p = Some h" "None \<notin> set h" using wf(3) pin by auto
  show ?thesis
  proof (cases "b \<and> \<not> (ci < 0 \<or> int (length h) \<le> ci)")
    case False
    then show ?thesis using turn b h by (cases b) (auto simp: layOffCard_p3_def)
  next
    case ok: True
    then have b': "validatePlayerMeetsRoundRequirements p g = Some True" using b by simp
    have ci: "0 \<le> ci" "ci < int (length h)" using ok by auto
    show ?thesis
    proof (cases "playerMelds g tp")
      case None
      then show ?thesis using turn b' h ci by (simp add: layOffCard_p3_def)
    next
      case (Some tms)
      show ?thesis
      proof (cases "mi < 0 \<or> int (length tms) \<le> mi")
        case True
        then show ?thesis using turn b' h ci Some by (auto simp: layOffCard_p3_def)
      next
        case mi: False
        let ?c = "h ! nat ci"
        let ?m = "tms ! nat mi"
        have "nat ci < length h" using ci by linarith
        then have "?c \<in> set h" by simp
        then have "?c \<noteq> None" using h(2) by metis
        then obtain k where k: "?c = Some k" by blast
        have "nat mi < length tms" using mi by linarith
        then have "?m \<in> set tms" by simp
        then have m: "cards ?m \<noteq> []" "None \<notin> set (cards ?m)" using wf(4) Some by auto
        then obtain cs where cs: "cards ?m = map Some cs" "cs \<noteq> []"
          using cards_only [of "cards ?m"] by auto
        obtain a where a: "canLayOffCard ?c ?m = Inr a"
          using canLayOffCard_cards [OF cs, of k] k by simp
        show ?thesis
        proof (cases a)
          case False
          then show ?thesis using turn b' h ci Some mi a by (simp add: layOffCard_p3_def)
        next
          case True
          define h1 where "h1 = splice1 h ci"
          define g1 where "g1 = g\<lparr>playerHands := (playerHands g)(p \<mapsto> h1),
                      playerMelds := (playerMelds g)(tp \<mapsto> tms[nat mi := ?m\<lparr>cards := cards ?m @ [?c]\<rparr>])\<rparr>"
          have eq: "layOffCard_p3 rnd p ci tp mi g =
             (if ?c = None then (Thrown TypeError, g1)
              else if h1 = [] then
                (case validatePlayerMeetsRoundRequirements p g1 of
                   None \<Rightarrow> (Thrown TypeError, g1)
                 | Some False \<Rightarrow>
                     (Failure (''Cannot go out! You need: '' @ melds_of_round g1),
                      g1\<lparr>playerHands := (playerHands g1)(p \<mapsto>
                             take (nat ci) h1 @ [?c] @ drop (nat ci) h1),
                         playerMelds := (playerMelds g1)(tp \<mapsto>
                             tms[nat mi := ?m\<lparr>cards := butlast (cards ?m @ [?c])\<rparr>])\<rparr>)
                 | Some True \<Rightarrow>
                     (case endRound_p3 rnd p g1 of
                        (Inl e, g2) \<Rightarrow> (Thrown e, g2)
                      | (Inr res, g2) \<Rightarrow> (Success (Some ?c) (Some res), g2)))
              else (Success (Some ?c) None, g1))"
            unfolding h1_def g1_def
            using turn b' h ci Some mi a True
            by (simp add: layOffCard_p3_def Let_def)
          obtain b1 where b1: "validatePlayerMeetsRoundRequirements p g1 = Some b1"
            using validate_requirements_defined [of g1 p] wf(2) by (auto simp: g1_def)
          have e1: "distinct (players_p3 g1)" using wf(1) by (simp add: g1_def)
          have e2: "players_p3 g1 \<noteq> []" using pin by (auto simp: g1_def)
          have e3: "\<forall>q \<in> set (players_p3 g1). playerScores g1 q \<noteq> None
               \<and> (q \<noteq> p \<longrightarrow> (\<exists>cs. playerHands g1 q = Some (map Some cs)))"
            using wf(3) cards_only by (fastforce simp: g1_def)
          obtain res where res: "fst (endRound_p3 rnd p g1) = Inr res"
            using endRound_p3_no_throw [OF e1 e2 e3] by blast
          obtain g2 where g2: "endRound_p3 rnd p g1 = (Inr res, g2)"
            using res by (cases "endRound_p3 rnd p g1") simp
          show ?thesis
            unfolding eq using b1 g2 k by (cases b1) simp_all
        qed
      qed
    qed
  qed
qed

lemma lay_off_game_p3_well_formed: "well_formed_p3 lay_off_game_p3"
  by (auto simp: well_formed_p3_def lay_off_game_p3_def requirement_of_def ROUND_REQUIREMENTS_def
      three_sevens_def bobs_data_def split: if_splits)

end
